theory Spec2Isabelle
  imports Main "HOL-Library.AList"
begin

section \<open>Python values used by the container\<close>

text \<open>
  The embedding follows \<^verbatim>\<open>hermes_core/util/container.py\<close>. The table, unit and time
  types come from a table library that is not part of these sources; the embedding takes
  from them what the container relies on. A table is an ordered collection of named
  column objects. A column object has a class, an array of values and possibly an
  attribute \<^verbatim>\<open>meta\<close>. The element type of the arrays is left open: the container never
  computes with the elements. Of the behaviour of the table library the embedding has
  what the calls of the container meet: the refusal of the keyword at line 88, and the
  checks of the time column and of the row count in an item assignment. Conversion
  between units is not part of the embedding.
\<close>

datatype punit = Unit string

text \<open>
  Values that occur in per-column metadata, with Python's truth value for each of them.
\<close>

datatype pyval = PyNone | PyStr string | PyInt int | PyBool bool

fun truthy :: "pyval \<Rightarrow> bool" where
  "truthy PyNone = False"
| "truthy (PyStr s) = (s \<noteq> [])"
| "truthy (PyInt i) = (i \<noteq> 0)"
| "truthy (PyBool b) = b"

type_synonym pydict = "(string \<times> pyval) list"

text \<open>
  \<^verbatim>\<open>d.update(other)\<close> on an ordered dictionary: each key of \<open>other\<close> is overwritten in
  place when present and appended otherwise.
\<close>

fun dict_update :: "pydict \<Rightarrow> pydict \<Rightarrow> pydict" where
  "dict_update d [] = d"
| "dict_update d ((k, v) # kvs) = dict_update (AList.update k v d) kvs"

text \<open>
  The class of a column object. \<open>Quantity u\<close> is a quantity with unit \<open>u\<close>; \<open>Column\<close>
  is a plain table column without a unit (it has an attribute \<^verbatim>\<open>unit\<close>, which is None);
  \<open>Time\<close> is a time array; \<open>Array\<close> is any other array-like object such as a list.
\<close>

datatype colclass = Quantity punit | Column | Time | Array

record 'a pyobj =
  cls :: colclass
  vals :: "'a list"
  meta :: "pydict option"

text \<open>\<^verbatim>\<open>isinstance(x, u.Quantity)\<close>\<close>

fun is_quantity_class :: "colclass \<Rightarrow> bool" where
  "is_quantity_class (Quantity u) = True"
| "is_quantity_class Column = False"
| "is_quantity_class Time = False"
| "is_quantity_class Array = False"

definition is_quantity :: "'a pyobj \<Rightarrow> bool" where
  "is_quantity x = is_quantity_class (cls x)"

text \<open>
  The attribute \<^verbatim>\<open>unit\<close>: \<open>None\<close> when the object has no such attribute
  (\<^verbatim>\<open>hasattr(x, "unit")\<close> is false), otherwise its value, which is itself None for a
  plain column.
\<close>

fun unit_attr :: "colclass \<Rightarrow> punit option option" where
  "unit_attr (Quantity u) = Some (Some u)"
| "unit_attr Column = Some None"
| "unit_attr Time = None"
| "unit_attr Array = None"

type_synonym 'a table = "(string \<times> 'a pyobj) list"

definition colnames :: "'a table \<Rightarrow> string list" where
  "colnames t = map fst t"

text \<open>
  What the caller passes as \<^verbatim>\<open>data\<close>: a time series, a table, or an object that is
  neither.
\<close>

datatype 'a pydata = TimeSeries "'a table" | Table "'a table" | NotATable

text \<open>
  Modelled from the spec: the persistence handlers and validators of
  \<^verbatim>\<open>hermes_core.util.io\<close> and \<^verbatim>\<open>hermes_core.util.validation\<close> are not under the
  sources. The three format handlers are instances of \<^verbatim>\<open>ScienceDataIOHandler\<close>;
  \<open>CustomHandler\<close> stands for any other instance of it.
\<close>

datatype handler = CDFHandler | NetCDFHandler | FITSHandler | CustomHandler nat

datatype validator = CDFValidator | NetCDFValidator | FITSValidator

text \<open>
  What the caller passes as \<^verbatim>\<open>handler\<close>: None, an instance of
  \<^verbatim>\<open>ScienceDataIOHandler\<close>, or some other object.
\<close>

datatype pyhandler = HNone | HInstance handler | HForeign

text \<open>
  The exceptions of the module, with their messages. \<open>Propagated\<close> is an exception
  raised inside a handler or validator, which the module passes on unchanged.
  \<open>Library c\<close> is an exception of class \<open>c\<close> raised inside the table library, which the
  module passes on unchanged as well; its text is the library's and is not modelled.
\<close>

datatype excclass = ValueErrorClass | TypeErrorClass

datatype error =
    ValueError string
  | TypeError string
  | KeyError string
  | AttributeError string
  | Propagated string
  | Library excclass

section \<open>ScienceData\<close>

record 'a ScienceData =
  data :: "'a table"
  handler :: "handler option"

text \<open>The setter of the property \<^verbatim>\<open>handler\<close>.\<close>

fun handler_setter :: "pyhandler \<Rightarrow> error + handler option" where
  "handler_setter HNone = Inr None"
| "handler_setter (HInstance h) = Inr (Some h)"
| "handler_setter HForeign =
     Inl (ValueError ''Handler must be an instance of ScienceDataIOHandler'')"

text \<open>
  \<^verbatim>\<open>TimeSeries(data, copy=True)\<close> on a time series: a new table with the same named
  columns in the same order. At this level a copy is equal to its original; the section
  on copy isolation gives the copy its own objects.
\<close>

definition timeseries_copy :: "'a table \<Rightarrow> 'a table" where
  "timeseries_copy t = t"

text \<open>
  \<^verbatim>\<open>TimeSeries(data, time_column="time", copy=True)\<close> on a table (line 88): the
  constructor of the table library has no parameter \<^verbatim>\<open>time_column\<close>, and the call raises
  TypeError for every table.
\<close>

definition timeseries_from_table :: "'a table \<Rightarrow> error + 'a table" where
  "timeseries_from_table t = Inl (Library TypeErrorClass)"

text \<open>
  The first column, in table order, that is not the time column and is not a quantity
  (the loop of lines 92 to 94).
\<close>

fun first_non_quantity :: "'a table \<Rightarrow> string option" where
  "first_non_quantity [] = None"
| "first_non_quantity ((n, c) # t) =
     (if n \<noteq> ''time'' \<and> \<not> is_quantity c then Some n else first_non_quantity t)"

text \<open>
  \<^verbatim>\<open>data[col].meta\<close> of the caller's table when the column object has that attribute,
  and nothing to add otherwise. Every name asked for is a column of the copy and hence
  of the caller's table.
\<close>

definition source_meta :: "'a table \<Rightarrow> string \<Rightarrow> pydict" where
  "source_meta src n =
     (case map_of src n of
        None \<Rightarrow> []
      | Some c \<Rightarrow> (case meta c of None \<Rightarrow> [] | Some m \<Rightarrow> m))"

text \<open>
  Lines 97 to 104: every column of the copy gets a new dictionary as \<^verbatim>\<open>meta\<close>, filled
  from the caller's column of the same name.
\<close>

definition rederive_meta :: "'a table \<Rightarrow> 'a table \<Rightarrow> 'a table" where
  "rederive_meta src t =
     map (\<lambda>(n, c). (n, c\<lparr>meta := Some (dict_update [] (source_meta src n))\<rparr>)) t"

definition column_count_msg :: string where
  "column_count_msg = ''Science data must have at least 2 columns''"

definition time_column_msg :: string where
  "time_column_msg = ''Science data must have a 'time' column''"

definition data_type_msg :: string where
  "data_type_msg = ''Invalid data type. Must be a TimeSeries or Table object.''"

definition not_quantity_msg :: "string \<Rightarrow> string" where
  "not_quantity_msg colname =
     ''Column '' @ [CHR 0x27] @ colname @ [CHR 0x27] @ '' must be an astropy.Quantity object''"

text \<open>The part of \<^verbatim>\<open>__init__\<close> after the copy has been made (lines 92 to 106).\<close>

definition init_columns ::
  "'a table \<Rightarrow> 'a table \<Rightarrow> pyhandler \<Rightarrow> error + 'a ScienceData" where
  "init_columns src t h =
     (case first_non_quantity t of
        Some colname \<Rightarrow> Inl (ValueError (not_quantity_msg colname))
      | None \<Rightarrow>
          (case handler_setter h of
             Inl e \<Rightarrow> Inl e
           | Inr h' \<Rightarrow> Inr \<lparr>data = rederive_meta src t, handler = h'\<rparr>))"

text \<open>The branch of \<^verbatim>\<open>__init__\<close> for a time series (lines 78 to 82), then lines 92 to 106.\<close>

definition init_table :: "'a table \<Rightarrow> pyhandler \<Rightarrow> error + 'a ScienceData" where
  "init_table t h =
     (if length t < 2 then Inl (ValueError column_count_msg)
      else if ''time'' \<notin> set (colnames t) then Inl (ValueError time_column_msg)
      else init_columns t (timeseries_copy t) h)"

text \<open>The branch of \<^verbatim>\<open>__init__\<close> for a table (lines 84 to 88), then lines 92 to 106.\<close>

definition init_from_table :: "'a table \<Rightarrow> pyhandler \<Rightarrow> error + 'a ScienceData" where
  "init_from_table t h =
     (if length t < 2 then Inl (ValueError column_count_msg)
      else if ''time'' \<notin> set (colnames t) then Inl (ValueError time_column_msg)
      else
        (case timeseries_from_table t of
           Inl e \<Rightarrow> Inl e
         | Inr c \<Rightarrow> init_columns t c h))"

text \<open>\<^verbatim>\<open>ScienceData.__init__(data, handler)\<close>\<close>

fun ScienceData_init :: "'a pydata \<Rightarrow> pyhandler \<Rightarrow> error + 'a ScienceData" where
  "ScienceData_init (TimeSeries t) h = init_table t h"
| "ScienceData_init (Table t) h = init_from_table t h"
| "ScienceData_init NotATable h = Inl (ValueError data_type_msg)"

text \<open>
  \<^verbatim>\<open>ScienceData.load(filename, handler)\<close>. The handler's \<^verbatim>\<open>load_data\<close> is a parameter: it
  returns the object it read or raises.
\<close>

definition ScienceData_load ::
  "(handler \<Rightarrow> string \<Rightarrow> string + 'a pydata) \<Rightarrow> string \<Rightarrow> pyhandler
     \<Rightarrow> error + 'a ScienceData" where
  "ScienceData_load load_data filename h =
     (case h of
        HInstance hdl \<Rightarrow>
          (case load_data hdl filename of
             Inl e \<Rightarrow> Inl (Propagated e)
           | Inr d \<Rightarrow> ScienceData_init d h)
      | _ \<Rightarrow> Inl (ValueError ''Handler must be an instance of ScienceDataIOHandler''))"

section \<open>Properties and item access\<close>

text \<open>
  The property \<^verbatim>\<open>units\<close>. Reading \<^verbatim>\<open>var_data.meta\<close> of an object without that
  attribute raises.
\<close>

datatype pyattr = AUnit punit | AVal pyval

definition no_meta_msg :: string where
  "no_meta_msg = ''object has no attribute 'meta' ''"

definition column_unit :: "'a pyobj \<Rightarrow> error + pyattr" where
  "column_unit var_data =
     (case unit_attr (cls var_data) of
        Some (Some u) \<Rightarrow> Inr (AUnit u)
      | Some None \<Rightarrow> Inr (AVal PyNone)
      | None \<Rightarrow>
          (case meta var_data of
             None \<Rightarrow> Inl (AttributeError no_meta_msg)
           | Some m \<Rightarrow>
               (case map_of m ''UNITS'' of
                  Some v \<Rightarrow> if truthy v then Inr (AVal v) else Inr (AVal PyNone)
                | None \<Rightarrow> Inr (AVal PyNone))))"

fun units_loop ::
  "'a table \<Rightarrow> (string \<times> pyattr) list \<Rightarrow> error + (string \<times> pyattr) list" where
  "units_loop [] units = Inr units"
| "units_loop ((name, var_data) # t) units =
     (case column_unit var_data of
        Inl e \<Rightarrow> Inl e
      | Inr unit \<Rightarrow> units_loop t (AList.update name unit units))"

definition units :: "'a ScienceData \<Rightarrow> error + (string \<times> pyattr) list" where
  "units sd = units_loop (data sd) []"

text \<open>The property \<^verbatim>\<open>columns\<close>.\<close>

definition columns :: "'a ScienceData \<Rightarrow> 'a table" where
  "columns sd = data sd"

text \<open>The property \<^verbatim>\<open>time\<close>; \<open>None\<close> is Python's None.\<close>

definition time :: "'a ScienceData \<Rightarrow> 'a pyobj option" where
  "time sd =
     (if ''time'' \<in> set (colnames (data sd)) then map_of (data sd) ''time'' else None)"

text \<open>The property \<^verbatim>\<open>shape\<close>; the time array has one dimension.\<close>

definition shape :: "'a ScienceData \<Rightarrow> nat \<times> nat" where
  "shape sd =
     (let nrows = (case time sd of Some t \<Rightarrow> length (vals t) | None \<Rightarrow> 0);
          ncols = length (data sd)
      in (nrows, ncols))"

text \<open>\<^verbatim>\<open>__len__\<close>, \<^verbatim>\<open>__contains__\<close> and \<^verbatim>\<open>__iter__\<close>\<close>

definition len :: "'a ScienceData \<Rightarrow> nat" where
  "len sd = length (colnames (data sd))"

definition contains :: "'a ScienceData \<Rightarrow> string \<Rightarrow> bool" where
  "contains sd name = (name \<in> set (colnames (data sd)))"

definition iter :: "'a ScienceData \<Rightarrow> (string \<times> 'a pyobj) list" where
  "iter sd = data sd"

text \<open>\<^verbatim>\<open>__getitem__\<close>\<close>

definition getitem :: "'a ScienceData \<Rightarrow> string \<Rightarrow> error + 'a pyobj" where
  "getitem sd name =
     (case map_of (data sd) name of
        None \<Rightarrow> Inl (KeyError (''CDFWriter does not contain data variable '' @ name))
      | Some var_data \<Rightarrow> Inr var_data)"

text \<open>
  The number of rows of a table: the length of its time column, which a container always
  has, and else that of its first column.
\<close>

definition nrows :: "'a table \<Rightarrow> nat" where
  "nrows t =
     (case map_of t ''time'' of
        Some c \<Rightarrow> length (vals c)
      | None \<Rightarrow> (case t of [] \<Rightarrow> 0 | (n, c) # rest \<Rightarrow> length (vals c)))"

text \<open>
  \<^verbatim>\<open>self.data[var_name] = var_data\<close> (line 294) is an item assignment of the table
  library, made only with a quantity. The library does not put a quantity in place of
  the time column, and it takes no column whose row count is neither that of the table
  nor 1: it raises ValueError and leaves the table as it is. A column of one row is
  repeated to the row count of the table. \<open>assigned_column\<close> is the column object that
  the assignment puts into the table under that name, in place of the column of that
  name or as a new last column.
\<close>

definition assigned_column :: "'a table \<Rightarrow> string \<Rightarrow> 'a pyobj \<Rightarrow> error + 'a pyobj" where
  "assigned_column t name x =
     (if name = ''time'' then Inl (Library ValueErrorClass)
      else if length (vals x) = nrows t then Inr x
      else if length (vals x) = 1 then Inr (x\<lparr>vals := replicate (nrows t) (hd (vals x))\<rparr>)
      else Inl (Library ValueErrorClass))"

text \<open>
  \<^verbatim>\<open>_add_variable\<close>. A method returns the exception it raised, if any, together with the
  container as it is afterwards, so that what a raising call leaves behind is part of
  the model. Whether a unit object counts as true is decided by the units library; it is
  the parameter \<open>unit_true\<close>. Lines 296 to 298 assign the \<^verbatim>\<open>meta\<close> of the column object
  that line 294 has put into the table.
\<close>

definition add_variable_msg :: "string \<Rightarrow> string" where
  "add_variable_msg var_name =
     ''Column '' @ var_name @
     '' must be type `astropy.units.Quantity` and have `unit` assigned.''"

text \<open>The truth value of \<^verbatim>\<open>var_data.unit\<close>, read only when \<^verbatim>\<open>var_data\<close> is a quantity.\<close>

definition unit_truth :: "(punit \<Rightarrow> bool) \<Rightarrow> 'a pyobj \<Rightarrow> bool" where
  "unit_truth unit_true var_data =
     (case cls var_data of Quantity u \<Rightarrow> unit_true u | _ \<Rightarrow> False)"

definition add_variable ::
  "(punit \<Rightarrow> bool) \<Rightarrow> string \<Rightarrow> 'a pyobj \<Rightarrow> pydict \<Rightarrow> 'a ScienceData
     \<Rightarrow> error option \<times> 'a ScienceData" where
  "add_variable unit_true var_name var_data var_attrs sd =
     (if \<not> is_quantity var_data \<or> \<not> unit_truth unit_true var_data
      then (Some (TypeError (add_variable_msg var_name)), sd)
      else
        (case assigned_column (data sd) var_name var_data of
           Inl e \<Rightarrow> (Some e, sd)
         | Inr col \<Rightarrow>
             (let stored = col\<lparr>meta := Some []\<rparr>;
                  stored' = (case meta var_data of
                               None \<Rightarrow> stored
                             | Some m \<Rightarrow> stored\<lparr>meta := Some (dict_update [] var_attrs)\<rparr>)
              in (None, sd\<lparr>data := AList.update var_name stored' (data sd)\<rparr>))))"

text \<open>\<^verbatim>\<open>__setitem__\<close>\<close>

definition setitem ::
  "(punit \<Rightarrow> bool) \<Rightarrow> string \<Rightarrow> 'a pyobj \<Rightarrow> 'a ScienceData
     \<Rightarrow> error option \<times> 'a ScienceData" where
  "setitem unit_true name d sd = add_variable unit_true name d [] sd"

section \<open>Persistence and dispatch\<close>

text \<open>
  \<^verbatim>\<open>save\<close>. The handler's \<^verbatim>\<open>save_data\<close> is a parameter that says whether the call
  raises. The calls made to the handler are recorded in a trace.
\<close>

datatype 'a call = SaveData handler "'a ScienceData" string

definition no_handler_msg :: string where
  "no_handler_msg = ''No handler specified for saving data''"

definition save ::
  "(handler \<Rightarrow> 'a ScienceData \<Rightarrow> string \<Rightarrow> string option) \<Rightarrow> string \<Rightarrow> 'a ScienceData
     \<Rightarrow> error option \<times> 'a call list \<times> 'a ScienceData" where
  "save save_data output_path sd =
     (case handler sd of
        None \<Rightarrow> (Some (ValueError no_handler_msg), [], sd)
      | Some h \<Rightarrow>
          (map_option Propagated (save_data h sd output_path),
           [SaveData h sd output_path], sd))"

text \<open>
  \<^verbatim>\<open>os.path.splitext\<close> of the standard library, in its POSIX form: the extension starts
  at the last dot of the last path component, unless that component has only dots
  before it. \<open>rfind\<close> is \<^verbatim>\<open>str.rfind\<close>, which answers -1 when the character is absent.
\<close>

fun rfind_from :: "char \<Rightarrow> string \<Rightarrow> int \<Rightarrow> int \<Rightarrow> int" where
  "rfind_from c [] i found = found"
| "rfind_from c (x # xs) i found = rfind_from c xs (i + 1) (if x = c then i else found)"

definition rfind :: "char \<Rightarrow> string \<Rightarrow> int" where
  "rfind c p = rfind_from c p 0 (- 1)"

function non_dot_before :: "string \<Rightarrow> nat \<Rightarrow> nat \<Rightarrow> bool" where
  "non_dot_before p filenameIndex dotIndex =
     (if filenameIndex < dotIndex
      then (if take 1 (drop filenameIndex p) \<noteq> ''.'' then True
            else non_dot_before p (filenameIndex + 1) dotIndex)
      else False)"
  by pat_completeness auto
termination
  by (relation "measure (\<lambda>(p, i, d). d - i)") auto

declare non_dot_before.simps [simp del]

definition splitext :: "string \<Rightarrow> string \<times> string" where
  "splitext p =
     (let sepIndex = rfind (CHR ''/'') p;
          dotIndex = rfind (CHR ''.'') p
      in if dotIndex > sepIndex \<and> non_dot_before p (nat (sepIndex + 1)) (nat dotIndex)
         then (take (nat dotIndex) p, drop (nat dotIndex) p)
         else (p, []))"

definition unsupported_msg :: "string \<Rightarrow> string" where
  "unsupported_msg file_extension = ''Unsupported file type: '' @ file_extension"

text \<open>\<^verbatim>\<open>read\<close>: the choice of the handler, then the load.\<close>

definition read_handler :: "string \<Rightarrow> error + handler" where
  "read_handler file_extension =
     (if file_extension = ''.cdf'' then Inr CDFHandler
      else if file_extension = ''.nc'' then Inr NetCDFHandler
      else if file_extension = ''.fits'' then Inr FITSHandler
      else Inl (ValueError (unsupported_msg file_extension)))"

definition read ::
  "(handler \<Rightarrow> string \<Rightarrow> string + 'a pydata) \<Rightarrow> string \<Rightarrow> error + 'a ScienceData" where
  "read load_data filename =
     (case read_handler (snd (splitext filename)) of
        Inl e \<Rightarrow> Inl e
      | Inr h \<Rightarrow> ScienceData_load load_data filename (HInstance h))"

text \<open>
  \<^verbatim>\<open>validate\<close>: the choice of the validator, then its \<^verbatim>\<open>validate\<close>, a parameter that
  returns the validator's issues or raises.
\<close>

definition validate_validator :: "string \<Rightarrow> error + validator" where
  "validate_validator file_extension =
     (if file_extension = ''.cdf'' then Inr CDFValidator
      else if file_extension = ''.nc'' then Inr NetCDFValidator
      else if file_extension = ''.fits'' then Inr FITSValidator
      else Inl (ValueError (unsupported_msg file_extension)))"

definition validate ::
  "(validator \<Rightarrow> string \<Rightarrow> string + 'i) \<Rightarrow> string \<Rightarrow> error + 'i" where
  "validate validator_validate filename =
     (case validate_validator (snd (splitext filename)) of
        Inl e \<Rightarrow> Inl e
      | Inr v \<Rightarrow>
          (case validator_validate v filename of
             Inl e \<Rightarrow> Inl (Propagated e)
           | Inr issues \<Rightarrow> Inr issues))"

text \<open>The table of a caller's object, when it is one.\<close>

fun table_of :: "'a pydata \<Rightarrow> 'a table option" where
  "table_of (TimeSeries t) = Some t"
| "table_of (Table t) = Some t"
| "table_of NotATable = None"

section \<open>Notions used in the statements\<close>

text \<open>
  A unit-bearing quantity, as \<^verbatim>\<open>_add_variable\<close> checks it: an instance of the quantity
  class whose unit counts as true.
\<close>

definition unit_bearing :: "(punit \<Rightarrow> bool) \<Rightarrow> 'a pyobj \<Rightarrow> bool" where
  "unit_bearing unit_true x = (is_quantity x \<and> unit_truth unit_true x)"

text \<open>Assignment to the property \<^verbatim>\<open>handler\<close> of a container.\<close>

definition set_handler ::
  "pyhandler \<Rightarrow> 'a ScienceData \<Rightarrow> error option \<times> 'a ScienceData" where
  "set_handler v sd =
     (case handler_setter v of
        Inl e \<Rightarrow> (Some e, sd)
      | Inr h \<Rightarrow> (None, sd\<lparr>handler := h\<rparr>))"

text \<open>
  The containers a program can hold: those built by the constructor from a table, whose
  column names are distinct, and those obtained from them by item assignments and
  handler assignments that returned normally.
\<close>

inductive reachable :: "(punit \<Rightarrow> bool) \<Rightarrow> 'a ScienceData \<Rightarrow> bool"
  for unit_true :: "punit \<Rightarrow> bool" where
  constructed:
    "table_of d = Some t \<Longrightarrow> distinct (colnames t) \<Longrightarrow> ScienceData_init d h = Inr sd
       \<Longrightarrow> reachable unit_true sd"
| assigned:
    "reachable unit_true sd \<Longrightarrow> setitem unit_true name x sd = (None, sd')
       \<Longrightarrow> reachable unit_true sd'"
| handler_assigned:
    "reachable unit_true sd \<Longrightarrow> set_handler v sd = (None, sd')
       \<Longrightarrow> reachable unit_true sd'"

text \<open>
  The resolution of a column's unit in the words of the specification: the unit
  attribute when the column has one, else the value of the metadata field "UNITS", else
  None.
\<close>

definition column_unit_spec :: "'a pyobj \<Rightarrow> pyattr" where
  "column_unit_spec var_data =
     (case unit_attr (cls var_data) of
        Some (Some u) \<Rightarrow> AUnit u
      | Some None \<Rightarrow> AVal PyNone
      | None \<Rightarrow>
          (case meta var_data of
             None \<Rightarrow> AVal PyNone
           | Some m \<Rightarrow> (case map_of m ''UNITS'' of Some v \<Rightarrow> AVal v | None \<Rightarrow> AVal PyNone)))"

text \<open>
  The unit that \<^verbatim>\<open>units\<close> records for a column whose \<^verbatim>\<open>meta\<close> can be read: the metadata
  field "UNITS" counts only when its value is true.
\<close>

definition resolved_unit :: "'a pyobj \<Rightarrow> pyattr" where
  "resolved_unit var_data =
     (case unit_attr (cls var_data) of
        Some (Some u) \<Rightarrow> AUnit u
      | Some None \<Rightarrow> AVal PyNone
      | None \<Rightarrow>
          (case meta var_data of
             None \<Rightarrow> AVal PyNone
           | Some m \<Rightarrow>
               (case map_of m ''UNITS'' of
                  Some v \<Rightarrow> if truthy v then AVal v else AVal PyNone
                | None \<Rightarrow> AVal PyNone)))"

text \<open>What holds of every container a program can hold.\<close>

definition container_inv :: "'a ScienceData \<Rightarrow> bool" where
  "container_inv sd \<longleftrightarrow>
     distinct (colnames (data sd)) \<and> ''time'' \<in> set (colnames (data sd)) \<and>
     2 \<le> length (data sd) \<and>
     (\<forall>(n, c) \<in> set (data sd). meta c \<noteq> None) \<and>
     (\<forall>(n, c) \<in> set (data sd). n \<noteq> ''time'' \<longrightarrow> is_quantity c)"

section \<open>Objects and references\<close>

text \<open>
  For copy isolation the identity of objects matters. A store holds the column objects
  and the table objects by address; a table object lists, for each column name, the
  address of its column object. Allocation appends to the store.
\<close>

record 'a store =
  objs :: "'a pyobj list"
  tabs :: "(string \<times> nat) list list"

text \<open>The contents of the table at an address.\<close>

definition table_at :: "'a store \<Rightarrow> nat \<Rightarrow> 'a table" where
  "table_at s a = map (\<lambda>(n, r). (n, objs s ! r)) (tabs s ! a)"

text \<open>What the caller passes as \<^verbatim>\<open>data\<close>, by reference.\<close>

datatype pyref = TimeSeriesRef nat | TableRef nat | NotATableRef

fun ref_addr :: "pyref \<Rightarrow> nat option" where
  "ref_addr (TimeSeriesRef a) = Some a"
| "ref_addr (TableRef a) = Some a"
| "ref_addr NotATableRef = None"

fun pydata_at :: "'a store \<Rightarrow> pyref \<Rightarrow> 'a pydata" where
  "pydata_at s (TimeSeriesRef a) = TimeSeries (table_at s a)"
| "pydata_at s (TableRef a) = Table (table_at s a)"
| "pydata_at s NotATableRef = NotATable"

text \<open>A container whose table is held by reference, and its contents in a store.\<close>

record ScienceDataRef =
  data_ref :: nat
  handler_ref :: "handler option"

definition container_at :: "'a store \<Rightarrow> ScienceDataRef \<Rightarrow> 'a ScienceData" where
  "container_at s sd = \<lparr>data = table_at s (data_ref sd), handler = handler_ref sd\<rparr>"

text \<open>The caller's reference is valid: its table exists and so do its columns.\<close>

definition wf_ref :: "'a store \<Rightarrow> nat \<Rightarrow> bool" where
  "wf_ref s a \<longleftrightarrow>
     a < length (tabs s) \<and> (\<forall>(n, r) \<in> set (tabs s ! a). r < length (objs s))"

text \<open>
  \<^verbatim>\<open>TimeSeries(data, copy=True)\<close>: a new table object whose columns are new objects with
  the contents of the caller's columns.
\<close>

definition timeseries_copy_store :: "nat \<Rightarrow> 'a store \<Rightarrow> nat \<times> 'a store" where
  "timeseries_copy_store a s =
     (let cols = tabs s ! a;
          base = length (objs s)
      in (length (tabs s),
          s\<lparr>objs := objs s @ map (\<lambda>(n, r). objs s ! r) cols,
            tabs := tabs s @ [zip (map fst cols) [base ..< base + length cols]]\<rparr>))"

text \<open>
  The loops of lines 97 to 104 on objects: the \<^verbatim>\<open>meta\<close> of each column object of the
  copy is assigned in place, read from the caller's table at address \<open>a\<close>.
\<close>

fun set_metas :: "nat \<Rightarrow> (string \<times> nat) list \<Rightarrow> 'a store \<Rightarrow> 'a store" where
  "set_metas a [] s = s"
| "set_metas a ((col, r) # cs) s =
     set_metas a cs
       (s\<lparr>objs := (objs s)
            [r := (objs s ! r)\<lparr>meta := Some (dict_update [] (source_meta (table_at s a) col))\<rparr>]\<rparr>)"

text \<open>
  \<^verbatim>\<open>TimeSeries(data, time_column="time", copy=True)\<close> on a store (line 88): the call
  raises before it has built anything.
\<close>

definition timeseries_from_table_store :: "nat \<Rightarrow> 'a store \<Rightarrow> error + nat \<times> 'a store" where
  "timeseries_from_table_store a s = Inl (Library TypeErrorClass)"

text \<open>
  \<^verbatim>\<open>__init__\<close> on a store: lines 92 to 106 with the caller's table at \<open>a\<close> and the copy at
  \<open>a'\<close>, then the two branches. What a raising call has allocated stays in the store.
\<close>

definition init_columns_store ::
  "nat \<Rightarrow> nat \<Rightarrow> pyhandler \<Rightarrow> 'a store \<Rightarrow> (error + ScienceDataRef) \<times> 'a store" where
  "init_columns_store a a' h s1 =
     (case first_non_quantity (table_at s1 a') of
        Some colname \<Rightarrow> (Inl (ValueError (not_quantity_msg colname)), s1)
      | None \<Rightarrow>
          (let s2 = set_metas a (tabs s1 ! a') s1
           in case handler_setter h of
                Inl e \<Rightarrow> (Inl e, s2)
              | Inr h' \<Rightarrow> (Inr \<lparr>data_ref = a', handler_ref = h'\<rparr>, s2)))"

definition init_table_store ::
  "nat \<Rightarrow> pyhandler \<Rightarrow> 'a store \<Rightarrow> (error + ScienceDataRef) \<times> 'a store" where
  "init_table_store a h s =
     (if length (tabs s ! a) < 2 then (Inl (ValueError column_count_msg), s)
      else if ''time'' \<notin> set (map fst (tabs s ! a)) then (Inl (ValueError time_column_msg), s)
      else
        (let (a', s1) = timeseries_copy_store a s
         in init_columns_store a a' h s1))"

definition init_from_table_store ::
  "nat \<Rightarrow> pyhandler \<Rightarrow> 'a store \<Rightarrow> (error + ScienceDataRef) \<times> 'a store" where
  "init_from_table_store a h s =
     (if length (tabs s ! a) < 2 then (Inl (ValueError column_count_msg), s)
      else if ''time'' \<notin> set (map fst (tabs s ! a)) then (Inl (ValueError time_column_msg), s)
      else
        (case timeseries_from_table_store a s of
           Inl e \<Rightarrow> (Inl e, s)
         | Inr (a', s1) \<Rightarrow> init_columns_store a a' h s1))"

fun ScienceData_init_store ::
  "pyref \<Rightarrow> pyhandler \<Rightarrow> 'a store \<Rightarrow> (error + ScienceDataRef) \<times> 'a store" where
  "ScienceData_init_store (TimeSeriesRef a) h s = init_table_store a h s"
| "ScienceData_init_store (TableRef a) h s = init_from_table_store a h s"
| "ScienceData_init_store NotATableRef h s = (Inl (ValueError data_type_msg), s)"

text \<open>
  What a caller can do to the table it passed, through its own reference to it: assign
  an element of a column, assign a key of a column's metadata, assign a column (the
  table takes a new object for it) and remove a column. A statement that would raise,
  such as one that names an absent column, changes nothing.
\<close>

datatype 'a mutation =
    SetElement string nat 'a
  | SetMetaKey string string pyval
  | SetColumn string "'a pyobj"
  | RemoveColumn string

fun mutate :: "nat \<Rightarrow> 'a mutation \<Rightarrow> 'a store \<Rightarrow> 'a store" where
  "mutate a (SetElement col i v) s =
     (case map_of (tabs s ! a) col of
        None \<Rightarrow> s
      | Some r \<Rightarrow> s\<lparr>objs := (objs s)[r := (objs s ! r)\<lparr>vals := (vals (objs s ! r))[i := v]\<rparr>]\<rparr>)"
| "mutate a (SetMetaKey col k v) s =
     (case map_of (tabs s ! a) col of
        None \<Rightarrow> s
      | Some r \<Rightarrow>
          (case meta (objs s ! r) of
             None \<Rightarrow> s
           | Some m \<Rightarrow> s\<lparr>objs := (objs s)[r := (objs s ! r)\<lparr>meta := Some (AList.update k v m)\<rparr>]\<rparr>))"
| "mutate a (SetColumn col x) s =
     s\<lparr>objs := objs s @ [x],
       tabs := (tabs s)[a := AList.update col (length (objs s)) (tabs s ! a)]\<rparr>"
| "mutate a (RemoveColumn col) s =
     s\<lparr>tabs := (tabs s)[a := AList.delete col (tabs s ! a)]\<rparr>"

text \<open>
  Two tables of a store are separate when they are different objects and share no column
  object.
\<close>

definition separate :: "'a store \<Rightarrow> nat \<Rightarrow> nat \<Rightarrow> bool" where
  "separate s a a' \<longleftrightarrow>
     a \<noteq> a' \<and> a < length (tabs s) \<and> a' < length (tabs s) \<and>
     (\<forall>(n, r) \<in> set (tabs s ! a'). r < length (objs s)) \<and>
     snd ` set (tabs s ! a) \<inter> snd ` set (tabs s ! a') = {}"

section \<open>Shape checks\<close>

lemma init_short:
  "table_of d = Some t \<Longrightarrow> length t < 2 \<Longrightarrow>
     ScienceData_init d h = Inl (ValueError column_count_msg)"
  by (cases d) (simp_all add: init_table_def init_from_table_def)

lemma init_no_time:
  "table_of d = Some t \<Longrightarrow> 2 \<le> length t \<Longrightarrow> ''time'' \<notin> set (colnames t) \<Longrightarrow>
     ScienceData_init d h = Inl (ValueError time_column_msg)"
  by (cases d) (simp_all add: init_table_def init_from_table_def)

lemma load_instance:
  "load_data hdl fn = Inr d \<Longrightarrow>
     ScienceData_load load_data fn (HInstance hdl) = ScienceData_init d (HInstance hdl)"
  by (simp add: ScienceData_load_def)

lemma shape_msgs_differ: "column_count_msg \<noteq> time_column_msg"
  by (simp add: column_count_msg_def time_column_msg_def)

text \<open>
  C1. A table with fewer than 2 columns is rejected with the ValueError
  "Science data must have at least 2 columns", whether or not it has a time column; a
  table with 2 or more columns and no column named "time" is rejected with the ValueError
  "Science data must have a 'time' column". This holds for the constructor, for every
  handler argument, and for \<^verbatim>\<open>load\<close> with any handler instance whose \<^verbatim>\<open>load_data\<close>
  returns that table. The two messages differ.
\<close>

theorem C1_invalid_shape:
  assumes "table_of d = Some t"
  shows "(length t < 2 \<longrightarrow>
            ScienceData_init d h = Inl (ValueError column_count_msg) \<and>
            (load_data hdl fn = Inr d \<longrightarrow>
               ScienceData_load load_data fn (HInstance hdl)
                 = Inl (ValueError column_count_msg))) \<and>
         (2 \<le> length t \<and> ''time'' \<notin> set (colnames t) \<longrightarrow>
            ScienceData_init d h = Inl (ValueError time_column_msg) \<and>
            (load_data hdl fn = Inr d \<longrightarrow>
               ScienceData_load load_data fn (HInstance hdl)
                 = Inl (ValueError time_column_msg))) \<and>
         column_count_msg \<noteq> time_column_msg"
  using assms
  by (auto simp: init_short init_no_time load_instance shape_msgs_differ)

theorem C1_invalid_shape_witness:
  "ScienceData_init
     (Table [(''flux'', \<lparr>cls = Quantity (Unit ''counts''), vals = [1, 2 :: int], meta = None\<rparr>)])
     HNone
     = Inl (ValueError column_count_msg) \<and>
   ScienceData_load
     (\<lambda>h f. Inr (TimeSeries
        [(''flux'', \<lparr>cls = Quantity (Unit ''counts''), vals = [1, 2 :: int], meta = None\<rparr>),
         (''energy'', \<lparr>cls = Quantity (Unit ''keV''), vals = [3, 4], meta = None\<rparr>)]))
     ''a.cdf'' (HInstance CDFHandler)
     = Inl (ValueError time_column_msg)"
proof -
  let ?q = "\<lparr>cls = Quantity (Unit ''counts''), vals = [1, 2 :: int], meta = None\<rparr>"
  let ?e = "\<lparr>cls = Quantity (Unit ''keV''), vals = [3, 4 :: int], meta = None\<rparr>"
  let ?ld = "\<lambda>(h::handler) (f::string). (Inr (TimeSeries [(''flux'', ?q), (''energy'', ?e)])
               :: string + int pydata)"
  have a: "table_of (Table [(''flux'', ?q)]) = Some [(''flux'', ?q)]"
    by simp
  have b: "table_of (TimeSeries [(''flux'', ?q), (''energy'', ?e)])
             = Some [(''flux'', ?q), (''energy'', ?e)]"
    by simp
  have "ScienceData_init (Table [(''flux'', ?q)]) HNone = Inl (ValueError column_count_msg)"
    using C1_invalid_shape [OF a, of HNone] by simp
  moreover
  have "ScienceData_load ?ld ''a.cdf'' (HInstance CDFHandler)
          = Inl (ValueError time_column_msg)"
    using C1_invalid_shape [OF b, of "HInstance CDFHandler" ?ld CDFHandler "''a.cdf''"]
    by (simp add: colnames_def)
  ultimately show ?thesis by simp
qed

section \<open>Unit checks at construction and the round trip\<close>

lemma first_non_quantity_Some:
  "first_non_quantity t = Some n \<Longrightarrow>
     \<exists>c. (n, c) \<in> set t \<and> n \<noteq> ''time'' \<and> \<not> is_quantity c"
  by (induction t) (auto split: if_splits)

lemma first_non_quantity_None:
  "first_non_quantity t = None \<longleftrightarrow> (\<forall>(n, c) \<in> set t. n \<noteq> ''time'' \<longrightarrow> is_quantity c)"
  by (induction t) (auto split: if_splits)

lemma init_table_valid:
  "2 \<le> length t \<Longrightarrow> ''time'' \<in> set (colnames t) \<Longrightarrow>
     init_table t h = init_columns t t h"
  by (simp add: init_table_def timeseries_copy_def)

lemma init_valid:
  "2 \<le> length t \<Longrightarrow> ''time'' \<in> set (colnames t) \<Longrightarrow>
     ScienceData_init (TimeSeries t) h = init_columns t t h"
  by (simp add: init_table_valid)

lemma init_columns_Inr:
  "init_columns src t h = Inr sd \<longleftrightarrow>
     first_non_quantity t = None \<and> h \<noteq> HForeign \<and>
     sd = \<lparr>data = rederive_meta src t, handler = (case h of HInstance x \<Rightarrow> Some x | _ \<Rightarrow> None)\<rparr>"
  by (cases h) (auto simp: init_columns_def split: option.splits)

text \<open>
  A table that is not a time series and passes the shape checks is never made into a
  container: the call of line 88 raises, before the unit check and whatever the handler.
\<close>

lemma init_from_table_raises:
  "2 \<le> length t \<Longrightarrow> ''time'' \<in> set (colnames t) \<Longrightarrow>
     ScienceData_init (Table t) h = Inl (Library TypeErrorClass)"
  by (simp add: init_from_table_def timeseries_from_table_def)

lemma init_from_table_not_Inr: "ScienceData_init (Table t) h \<noteq> Inr sd"
  by (simp add: init_from_table_def timeseries_from_table_def)

lemma init_Inr_table:
  "ScienceData_init d h = Inr sd \<Longrightarrow>
     \<exists>t. d = TimeSeries t \<and> table_of d = Some t \<and> 2 \<le> length t \<and>
         ''time'' \<in> set (colnames t) \<and> init_columns t t h = Inr sd"
  by (cases d)
     (auto simp: init_table_def init_from_table_def timeseries_from_table_def
        timeseries_copy_def split: if_splits)

text \<open>
  On a time series the unit check is as claimed: after the shape checks, the first
  column other than "time" that is not a quantity is named in a ValueError, and
  construction succeeds exactly when there is none and the handler argument is None or a
  handler.
\<close>

lemma timeseries_unit_check:
  assumes "2 \<le> length t" and "''time'' \<in> set (colnames t)"
  shows "((\<exists>(n, c) \<in> set t. n \<noteq> ''time'' \<and> \<not> is_quantity c) \<longrightarrow>
            (\<exists>n c. (n, c) \<in> set t \<and> n \<noteq> ''time'' \<and> \<not> is_quantity c \<and>
               first_non_quantity t = Some n \<and>
               ScienceData_init (TimeSeries t) h = Inl (ValueError (not_quantity_msg n)))) \<and>
         ((\<exists>sd. ScienceData_init (TimeSeries t) h = Inr sd) \<longrightarrow>
            (\<forall>(n, c) \<in> set t. n \<noteq> ''time'' \<longrightarrow> is_quantity c)) \<and>
         ((\<forall>(n, c) \<in> set t. n \<noteq> ''time'' \<longrightarrow> is_quantity c) \<and> h \<noteq> HForeign \<longrightarrow>
            (\<exists>sd. ScienceData_init (TimeSeries t) h = Inr sd))"
proof (intro conjI impI)
  assume bad: "\<exists>(n, c) \<in> set t. n \<noteq> ''time'' \<and> \<not> is_quantity c"
  then have "first_non_quantity t \<noteq> None"
    by (auto simp: first_non_quantity_None)
  then obtain n where n: "first_non_quantity t = Some n" by auto
  then obtain c where c: "(n, c) \<in> set t" "n \<noteq> ''time''" "\<not> is_quantity c"
    using first_non_quantity_Some by blast
  have "ScienceData_init (TimeSeries t) h = Inl (ValueError (not_quantity_msg n))"
    using assms n by (simp add: init_table_valid init_columns_def)
  with n c show "\<exists>n c. (n, c) \<in> set t \<and> n \<noteq> ''time'' \<and> \<not> is_quantity c \<and>
               first_non_quantity t = Some n \<and>
               ScienceData_init (TimeSeries t) h = Inl (ValueError (not_quantity_msg n))"
    by blast
next
  assume "\<exists>sd. ScienceData_init (TimeSeries t) h = Inr sd"
  then obtain sd where "init_columns t t h = Inr sd"
    using assms by (auto simp: init_table_valid)
  then have "first_non_quantity t = None"
    by (simp add: init_columns_Inr)
  then show "\<forall>(n, c) \<in> set t. n \<noteq> ''time'' \<longrightarrow> is_quantity c"
    by (simp add: first_non_quantity_None)
next
  assume "(\<forall>(n, c) \<in> set t. n \<noteq> ''time'' \<longrightarrow> is_quantity c) \<and> h \<noteq> HForeign"
  then have "first_non_quantity t = None" and "h \<noteq> HForeign"
    by (simp_all add: first_non_quantity_None)
  then show "\<exists>sd. ScienceData_init (TimeSeries t) h = Inr sd"
    using assms by (simp add: init_table_valid init_columns_Inr)
qed

text \<open>
  C2. The unit check is not reached for a table that is not a time series. The table with
  the columns "time" and "flux", where "flux" is a plain column without a unit, passes
  the shape checks; construction then raises the TypeError of the table library at line
  88, where a ValueError naming "flux" is claimed. The same table as a time series gives
  that ValueError.
\<close>

theorem C2_table_unit_check_not_reached:
  "ScienceData_init
     (Table
        [(''time'', \<lparr>cls = Time, vals = [0, 1 :: int], meta = None\<rparr>),
         (''flux'', \<lparr>cls = Column, vals = [5, 6], meta = Some []\<rparr>)])
     HNone
     = Inl (Library TypeErrorClass) \<and>
   ScienceData_init
     (TimeSeries
        [(''time'', \<lparr>cls = Time, vals = [0, 1 :: int], meta = None\<rparr>),
         (''flux'', \<lparr>cls = Column, vals = [5, 6], meta = Some []\<rparr>)])
     HNone
     = Inl (ValueError (not_quantity_msg ''flux''))"
  by (simp add: init_from_table_def timeseries_from_table_def init_table_def
      timeseries_copy_def init_columns_def colnames_def is_quantity_def)

lemma map_of_rederive_meta:
  "map_of (rederive_meta src t) n =
     map_option (\<lambda>c. c\<lparr>meta := Some (dict_update [] (source_meta src n))\<rparr>) (map_of t n)"
  by (induction t) (auto simp: rederive_meta_def)

lemma colnames_rederive_meta [simp]: "colnames (rederive_meta src t) = colnames t"
  by (simp add: rederive_meta_def colnames_def case_prod_beta)

text \<open>
  On a time series the round trip is as claimed: with at least 2 columns, a column
  "time" and only quantities besides it, construction succeeds, and for every column of
  the input \<^verbatim>\<open>__getitem__\<close> returns a column with the same values and the same class,
  hence the same unit.
\<close>

lemma timeseries_round_trip:
  assumes "2 \<le> length t" and "''time'' \<in> set (colnames t)"
    and "\<forall>(n, c) \<in> set t. n \<noteq> ''time'' \<longrightarrow> is_quantity c"
    and "h \<noteq> HForeign"
  shows "\<exists>sd. ScienceData_init (TimeSeries t) h = Inr sd \<and>
           (\<forall>n c. map_of t n = Some c \<longrightarrow>
              (\<exists>c'. getitem sd n = Inr c' \<and> vals c' = vals c \<and> cls c' = cls c))"
proof -
  have "first_non_quantity t = None"
    using assms(3) by (simp add: first_non_quantity_None)
  then obtain sd where sd: "ScienceData_init (TimeSeries t) h = Inr sd"
      "data sd = rederive_meta t t"
    using assms by (simp add: init_table_valid init_columns_Inr)
  have "\<exists>c'. getitem sd n = Inr c' \<and> vals c' = vals c \<and> cls c' = cls c"
    if "map_of t n = Some c" for n c
    using that sd(2) by (simp add: getitem_def map_of_rederive_meta)
  with sd(1) show ?thesis by blast
qed

text \<open>
  C4. There is no round trip for a table that is not a time series. The table with the
  columns "flux", a quantity in counts, and "time" is valid, and construction raises the
  TypeError of the table library at line 88, where it is claimed to succeed and to give
  the columns back. The same table as a time series is constructed, and
  \<^verbatim>\<open>__getitem__\<close> returns "flux" with its values and unit.
\<close>

theorem C4_table_no_round_trip:
  "ScienceData_init
     (Table
        [(''flux'', \<lparr>cls = Quantity (Unit ''counts''), vals = [5, 6 :: int],
                    meta = Some [(''CATDESC'', PyStr ''flux'')]\<rparr>),
         (''time'', \<lparr>cls = Time, vals = [0, 1], meta = None\<rparr>)])
     (HInstance FITSHandler)
     = Inl (Library TypeErrorClass) \<and>
   ScienceData_init
     (TimeSeries
        [(''flux'', \<lparr>cls = Quantity (Unit ''counts''), vals = [5, 6 :: int],
                    meta = Some [(''CATDESC'', PyStr ''flux'')]\<rparr>),
         (''time'', \<lparr>cls = Time, vals = [0, 1], meta = None\<rparr>)])
     (HInstance FITSHandler)
     = Inr \<lparr>data =
              [(''flux'', \<lparr>cls = Quantity (Unit ''counts''), vals = [5, 6],
                          meta = Some [(''CATDESC'', PyStr ''flux'')]\<rparr>),
               (''time'', \<lparr>cls = Time, vals = [0, 1], meta = Some []\<rparr>)],
            handler = Some FITSHandler\<rparr> \<and>
   getitem
     \<lparr>data =
        [(''flux'', \<lparr>cls = Quantity (Unit ''counts''), vals = [5, 6 :: int],
                    meta = Some [(''CATDESC'', PyStr ''flux'')]\<rparr>),
         (''time'', \<lparr>cls = Time, vals = [0, 1], meta = Some []\<rparr>)],
      handler = Some FITSHandler\<rparr>
     ''flux''
     = Inr \<lparr>cls = Quantity (Unit ''counts''), vals = [5, 6],
            meta = Some [(''CATDESC'', PyStr ''flux'')]\<rparr>"
  by (simp add: init_from_table_def timeseries_from_table_def init_table_def
      timeseries_copy_def init_columns_def colnames_def is_quantity_def
      rederive_meta_def source_meta_def getitem_def)

section \<open>Saving and item assignment\<close>

text \<open>
  C6. \<^verbatim>\<open>save\<close> raises the ValueError "No handler specified for saving data" exactly when
  the container has no handler, and then calls nothing. With a handler \<open>h\<close> it makes one
  call, \<^verbatim>\<open>h.save_data\<close> with the container and the given path, and raises only what that
  call raises. The container is the same afterwards in both cases.
\<close>

theorem C6_save:
  "(fst (save save_data output_path sd) = Some (ValueError no_handler_msg)
      \<longleftrightarrow> handler sd = None) \<and>
   (handler sd = None \<longrightarrow> fst (snd (save save_data output_path sd)) = []) \<and>
   (\<forall>h. handler sd = Some h \<longrightarrow>
      fst (snd (save save_data output_path sd)) = [SaveData h sd output_path] \<and>
      fst (save save_data output_path sd)
        = map_option Propagated (save_data h sd output_path)) \<and>
   snd (snd (save save_data output_path sd)) = sd"
  by (cases "handler sd"; cases "save_data (the (handler sd)) sd output_path")
     (simp_all add: save_def)

theorem C6_save_witness:
  "fst (save (\<lambda>h d p. None)
          ''out.cdf'' \<lparr>data = ([] :: int table), handler = None\<rparr>)
     = Some (ValueError no_handler_msg) \<and>
   fst (snd (save (\<lambda>h d p. None)
          ''out.cdf'' \<lparr>data = ([] :: int table), handler = Some CDFHandler\<rparr>))
     = [SaveData CDFHandler \<lparr>data = [], handler = Some CDFHandler\<rparr> ''out.cdf'']"
  using C6_save [of "\<lambda>h d p. None" "''out.cdf''" "\<lparr>data = ([] :: int table), handler = None\<rparr>"]
    C6_save [of "\<lambda>h d p. None" "''out.cdf''"
               "\<lparr>data = ([] :: int table), handler = Some CDFHandler\<rparr>"]
  by simp

lemma add_variable_fail:
  "\<not> unit_bearing unit_true x \<Longrightarrow>
     add_variable unit_true name x attrs sd = (Some (TypeError (add_variable_msg name)), sd)"
  by (auto simp: add_variable_def unit_bearing_def)

lemma add_variable_refused:
  "unit_bearing unit_true x \<Longrightarrow> assigned_column (data sd) name x = Inl e \<Longrightarrow>
     add_variable unit_true name x attrs sd = (Some e, sd)"
  by (auto simp: add_variable_def unit_bearing_def)

lemma add_variable_ok:
  "unit_bearing unit_true x \<Longrightarrow> assigned_column (data sd) name x = Inr col \<Longrightarrow>
     add_variable unit_true name x attrs sd =
       (None, sd\<lparr>data := AList.update name
                 (col\<lparr>meta := Some (case meta x of None \<Rightarrow> [] | Some m \<Rightarrow> dict_update [] attrs)\<rparr>)
                 (data sd)\<rparr>)"
  by (auto simp: add_variable_def unit_bearing_def Let_def split: option.splits)

lemma setitem_fail:
  "\<not> unit_bearing unit_true x \<Longrightarrow>
     setitem unit_true name x sd = (Some (TypeError (add_variable_msg name)), sd)"
  by (simp add: setitem_def add_variable_fail)

lemma setitem_refused:
  "unit_bearing unit_true x \<Longrightarrow> assigned_column (data sd) name x = Inl e \<Longrightarrow>
     setitem unit_true name x sd = (Some e, sd)"
  by (simp add: setitem_def add_variable_refused)

lemma setitem_ok:
  "unit_bearing unit_true x \<Longrightarrow> assigned_column (data sd) name x = Inr col \<Longrightarrow>
     setitem unit_true name x sd =
       (None, sd\<lparr>data := AList.update name (col\<lparr>meta := Some []\<rparr>) (data sd)\<rparr>)"
  by (simp add: setitem_def add_variable_ok split: option.splits)

lemma setitem_None:
  "setitem unit_true name x sd = (None, sd') \<longleftrightarrow>
     unit_bearing unit_true x \<and>
     (\<exists>col. assigned_column (data sd) name x = Inr col \<and>
        sd' = sd\<lparr>data := AList.update name (col\<lparr>meta := Some []\<rparr>) (data sd)\<rparr>)"
proof (cases "unit_bearing unit_true x")
  case False
  then show ?thesis by (simp add: setitem_fail)
next
  case True
  then show ?thesis
    by (cases "assigned_column (data sd) name x") (auto simp: setitem_ok setitem_refused)
qed

lemma setitem_Some:
  "setitem unit_true name x sd = (Some e, sd') \<Longrightarrow> sd' = sd"
proof (cases "unit_bearing unit_true x")
  case False
  then show "setitem unit_true name x sd = (Some e, sd') \<Longrightarrow> sd' = sd"
    by (simp add: setitem_fail)
next
  case True
  then show "setitem unit_true name x sd = (Some e, sd') \<Longrightarrow> sd' = sd"
    by (cases "assigned_column (data sd) name x") (auto simp: setitem_ok setitem_refused)
qed

lemma assigned_column_Inr:
  "assigned_column t name x = Inr col \<longleftrightarrow>
     name \<noteq> ''time'' \<and>
     (length (vals x) = nrows t \<and> col = x \<or>
      length (vals x) \<noteq> nrows t \<and> length (vals x) = 1 \<and>
      col = x\<lparr>vals := replicate (nrows t) (hd (vals x))\<rparr>)"
  by (auto simp: assigned_column_def)

lemma assigned_column_cls: "assigned_column t name x = Inr col \<Longrightarrow> cls col = cls x"
  by (auto simp: assigned_column_Inr)

lemma assigned_column_Inl:
  "assigned_column t name x = Inl e \<longleftrightarrow>
     e = Library ValueErrorClass \<and>
     (name = ''time'' \<or> length (vals x) \<noteq> nrows t \<and> length (vals x) \<noteq> 1)"
  by (auto simp: assigned_column_def)

lemma colnames_update:
  "colnames (AList.update k v t) =
     (if k \<in> set (colnames t) then colnames t else colnames t @ [k])"
  by (simp add: colnames_def update_keys)




text \<open>
  C8. After an item assignment that returned normally, the metadata of the stored column
  is the empty dictionary, whatever metadata the assigned quantity carried: the call is
  \<^verbatim>\<open>_add_variable\<close> with empty attributes.
\<close>

theorem C8_setitem_meta:
  assumes "setitem unit_true name x sd = (None, sd')"
  shows "(\<exists>c. getitem sd' name = Inr c \<and> meta c = Some [] \<and> cls c = cls x) \<and>
         setitem unit_true name x sd = add_variable unit_true name x [] sd"
proof -
  from assms obtain col where col: "assigned_column (data sd) name x = Inr col"
    and sd': "sd' = sd\<lparr>data := AList.update name (col\<lparr>meta := Some []\<rparr>) (data sd)\<rparr>"
    by (auto simp: setitem_None)
  have "getitem sd' name = Inr (col\<lparr>meta := Some []\<rparr>)"
    by (simp add: sd' getitem_def update_conv')
  moreover have "cls col = cls x" using col by (rule assigned_column_cls)
  ultimately have "\<exists>c. getitem sd' name = Inr c \<and> meta c = Some [] \<and> cls c = cls x"
    by simp
  then show ?thesis by (simp add: setitem_def)
qed

theorem C8_setitem_meta_witness:
  "\<exists>c. getitem
         (snd (setitem (\<lambda>u. True) ''flux''
            \<lparr>cls = Quantity (Unit ''counts''), vals = [7, 8 :: int],
             meta = Some [(''CATDESC'', PyStr ''flux'')]\<rparr>
            \<lparr>data = [(''time'', \<lparr>cls = Time, vals = [0, 1], meta = Some []\<rparr>),
                     (''flux'', \<lparr>cls = Quantity (Unit ''counts''), vals = [5, 6],
                                meta = Some [(''CATDESC'', PyStr ''old'')]\<rparr>)],
             handler = None\<rparr>))
         ''flux'' = Inr c \<and> meta c = Some []"
proof -
  let ?sd = "\<lparr>data = [(''time'', \<lparr>cls = Time, vals = [0, 1 :: int], meta = Some []\<rparr>),
                     (''flux'', \<lparr>cls = Quantity (Unit ''counts''), vals = [5, 6],
                                meta = Some [(''CATDESC'', PyStr ''old'')]\<rparr>)],
              handler = None\<rparr>"
  let ?x = "\<lparr>cls = Quantity (Unit ''counts''), vals = [7, 8 :: int],
              meta = Some [(''CATDESC'', PyStr ''flux'')]\<rparr>"
  have ub: "unit_bearing (\<lambda>u. True) ?x"
    by (simp add: unit_bearing_def is_quantity_def unit_truth_def)
  have col: "assigned_column (data ?sd) ''flux'' ?x = Inr ?x"
    by (simp add: assigned_column_def nrows_def)
  have ok: "setitem (\<lambda>u. True) ''flux'' ?x ?sd
                  = (None, snd (setitem (\<lambda>u. True) ''flux'' ?x ?sd))"
    by (simp add: setitem_ok [OF ub col])
  from C8_setitem_meta [OF ok] show ?thesis by blast
qed

section \<open>Dispatch on the file extension\<close>

lemma rfind_from_append:
  "rfind_from c (xs @ ys) i f = rfind_from c ys (i + int (length xs)) (rfind_from c xs i f)"
  by (induction xs arbitrary: i f) (auto simp: algebra_simps)

lemma rfind_from_absent: "c \<notin> set ys \<Longrightarrow> rfind_from c ys i f = f"
  by (induction ys arbitrary: i) auto

lemma rfind_last:
  "c \<notin> set ys \<Longrightarrow> rfind c (xs @ c # ys) = int (length xs)"
  by (simp add: rfind_def rfind_from_append rfind_from_absent)

lemma rfind_absent: "c \<notin> set ys \<Longrightarrow> rfind c ys = - 1"
  by (simp add: rfind_def rfind_from_absent)

lemma splitext_concat: "fst (splitext p) @ snd (splitext p) = p"
  by (simp add: splitext_def Let_def)

lemma splitext_plain:
  assumes "base \<noteq> []" and "CHR ''.'' \<notin> set base" and "CHR ''/'' \<notin> set base"
    and "CHR ''.'' \<notin> set ext" and "CHR ''/'' \<notin> set ext"
    and "dir = [] \<or> last dir = CHR ''/''"
  shows "splitext (dir @ base @ ''.'' @ ext) = (dir @ base, ''.'' @ ext)"
proof -
  let ?p = "dir @ base @ ''.'' @ ext"
  have dot: "rfind (CHR ''.'') ?p = int (length dir + length base)"
    using rfind_last [of "CHR ''.''" ext "dir @ base"] assms(4) by simp
  have sep: "rfind (CHR ''/'') ?p = int (length dir) - 1"
  proof (cases "dir = []")
    case True
    then show ?thesis using assms(3,5) by (simp add: rfind_absent)
  next
    case False
    with assms(6) have "dir = butlast dir @ [CHR ''/'']"
      by (metis append_butlast_last_id)
    then obtain d where d: "dir = d @ [CHR ''/'']" by blast
    have "rfind (CHR ''/'') (d @ CHR ''/'' # (base @ ''.'' @ ext)) = int (length d)"
      using assms(3,5) by (intro rfind_last) simp
    then show ?thesis using d by simp
  qed
  obtain b bs where b: "base = b # bs" using assms(1) by (cases base) auto
  have "b \<noteq> CHR ''.''" using b assms(2) by auto
  then have nd: "non_dot_before ?p (length dir) (length dir + length base)"
    using b by (subst non_dot_before.simps) simp
  have i: "nat (rfind (CHR ''/'') ?p + 1) = length dir"
    using sep by simp
  have j: "nat (rfind (CHR ''.'') ?p) = length dir + length base"
    using dot by simp
  have gt: "rfind (CHR ''.'') ?p > rfind (CHR ''/'') ?p"
    using dot sep by simp
  have td: "take (length dir + length base) ?p = dir @ base"
      "drop (length dir + length base) ?p = ''.'' @ ext"
    by simp_all
  show ?thesis
    unfolding splitext_def Let_def i j using gt nd td by simp
qed

lemma ext_examples:
  "snd (splitext ''x.cdf'') = ''.cdf''"
  "snd (splitext ''x.unknown'') = ''.unknown''"
  "snd (splitext ''data/x.CDF'') = ''.CDF''"
  "snd (splitext ''l1/x.fits'') = ''.fits''"
  "snd (splitext ''.nc'') = []"
  by code_simp+

text \<open>
  C3. \<^verbatim>\<open>read\<close> and \<^verbatim>\<open>validate\<close> compare the extension that \<^verbatim>\<open>os.path.splitext\<close> gives
  with ".cdf", ".nc" and ".fits" for equality: ".cdf" selects the CDF handler and
  validator, ".nc" the NetCDF ones, ".fits" the FITS ones, and any other extension raises
  the ValueError "Unsupported file type: <extension>" in both. \<^verbatim>\<open>validate\<close> returns the
  issues of the selected validator as they are, and passes on what it raises.
\<close>

theorem C3_dispatch:
  "(snd (splitext filename) = ''.cdf'' \<longrightarrow>
      read load_data filename = ScienceData_load load_data filename (HInstance CDFHandler) \<and>
      validate_validator (snd (splitext filename)) = Inr CDFValidator) \<and>
   (snd (splitext filename) = ''.nc'' \<longrightarrow>
      read load_data filename = ScienceData_load load_data filename (HInstance NetCDFHandler) \<and>
      validate_validator (snd (splitext filename)) = Inr NetCDFValidator) \<and>
   (snd (splitext filename) = ''.fits'' \<longrightarrow>
      read load_data filename = ScienceData_load load_data filename (HInstance FITSHandler) \<and>
      validate_validator (snd (splitext filename)) = Inr FITSValidator) \<and>
   (snd (splitext filename) \<notin> {''.cdf'', ''.nc'', ''.fits''} \<longrightarrow>
      read load_data filename
        = Inl (ValueError (unsupported_msg (snd (splitext filename)))) \<and>
      validate validator_validate filename
        = Inl (ValueError (unsupported_msg (snd (splitext filename))))) \<and>
   (\<forall>v issues. validate_validator (snd (splitext filename)) = Inr v \<and>
      validator_validate v filename = Inr issues \<longrightarrow>
      validate validator_validate filename = Inr issues) \<and>
   (\<forall>v e. validate_validator (snd (splitext filename)) = Inr v \<and>
      validator_validate v filename = Inl e \<longrightarrow>
      validate validator_validate filename = Inl (Propagated e))"
  by (auto simp: read_def read_handler_def validate_def validate_validator_def)


theorem C3_dispatch_witness:
  "read (\<lambda>h f. Inl ''unreadable'' :: string + int pydata) ''x.cdf''
     = ScienceData_load (\<lambda>h f. Inl ''unreadable'') ''x.cdf'' (HInstance CDFHandler) \<and>
   read (\<lambda>h f. Inl ''unreadable'' :: string + int pydata) ''x.unknown''
     = Inl (ValueError (unsupported_msg ''.unknown'')) \<and>
   validate (\<lambda>v f. Inr [''issue''] :: string + string list) ''data/x.CDF''
     = Inl (ValueError (unsupported_msg ''.CDF'')) \<and>
   validate (\<lambda>v f. Inr [''issue''] :: string + string list) ''.nc''
     = Inl (ValueError (unsupported_msg [])) \<and>
   validate (\<lambda>v f. Inr [''issue''] :: string + string list) ''l1/x.fits''
     = Inr [''issue'']"
proof -
  let ?ld = "\<lambda>(h::handler) (f::string). Inl ''unreadable'' :: string + int pydata"
  let ?vv = "\<lambda>(v::validator) (f::string). Inr [''issue''] :: string + string list"
  have "read ?ld ''x.cdf'' = ScienceData_load ?ld ''x.cdf'' (HInstance CDFHandler)"
    using C3_dispatch [of "''x.cdf''" ?ld ?vv] by (simp add: ext_examples)
  moreover
  have "read ?ld ''x.unknown'' = Inl (ValueError (unsupported_msg ''.unknown''))"
    using C3_dispatch [of "''x.unknown''" ?ld ?vv] by (simp add: ext_examples)
  moreover
  have "validate ?vv ''data/x.CDF'' = Inl (ValueError (unsupported_msg ''.CDF''))"
    using C3_dispatch [of "''data/x.CDF''" ?ld ?vv] by (simp add: ext_examples)
  moreover
  have "validate ?vv ''.nc'' = Inl (ValueError (unsupported_msg []))"
    using C3_dispatch [of "''.nc''" ?ld ?vv] by (simp add: ext_examples)
  moreover
  have "validate ?vv ''l1/x.fits'' = Inr [''issue'']"
    using C3_dispatch [of "''l1/x.fits''" ?ld ?vv]
    by (simp add: ext_examples validate_validator_def)
  ultimately show ?thesis by blast
qed

section \<open>Units and the invariant\<close>

lemma column_unit_resolved:
  "meta c \<noteq> None \<Longrightarrow> column_unit c = Inr (resolved_unit c)"
  by (auto simp: column_unit_def resolved_unit_def split: option.splits)

lemma update_fresh: "k \<notin> fst ` set al \<Longrightarrow> AList.update k v al = al @ [(k, v)]"
  by (induction al) auto

lemma units_loop_distinct:
  "\<forall>(n, c) \<in> set t. meta c \<noteq> None \<Longrightarrow> distinct (map fst acc @ map fst t) \<Longrightarrow>
     units_loop t acc = Inr (acc @ map (\<lambda>(n, c). (n, resolved_unit c)) t)"
proof (induction t arbitrary: acc)
  case Nil
  then show ?case by simp
next
  case (Cons p t)
  obtain n c where p: "p = (n, c)" by (cases p)
  have "n \<notin> fst ` set acc" using Cons.prems(2) p by auto
  then have u: "AList.update n (resolved_unit c) acc = acc @ [(n, resolved_unit c)]"
    by (rule update_fresh)
  have "distinct (map fst (acc @ [(n, resolved_unit c)]) @ map fst t)"
    using Cons.prems(2) p by auto
  moreover have "\<forall>(n, c) \<in> set t. meta c \<noteq> None" using Cons.prems(1) by simp
  ultimately have "units_loop t (acc @ [(n, resolved_unit c)])
      = Inr ((acc @ [(n, resolved_unit c)]) @ map (\<lambda>(n, c). (n, resolved_unit c)) t)"
    by (rule Cons.IH [rotated])
  moreover have "column_unit c = Inr (resolved_unit c)"
    using Cons.prems(1) p by (simp add: column_unit_resolved)
  ultimately show ?case using p u by simp
qed

lemma units_of_inv:
  "container_inv sd \<Longrightarrow>
     units sd = Inr (map (\<lambda>(n, c). (n, resolved_unit c)) (data sd))"
  using units_loop_distinct [of "data sd" "[]"]
  by (simp add: units_def container_inv_def colnames_def)

lemma first_non_quantity_rederive:
  "first_non_quantity (rederive_meta src t) = first_non_quantity t"
  by (induction t) (auto simp: rederive_meta_def is_quantity_def)

lemma rederive_meta_has_meta: "\<forall>(n, c) \<in> set (rederive_meta src t). meta c \<noteq> None"
  by (auto simp: rederive_meta_def)

lemma init_inv:
  assumes "table_of d = Some t" and "distinct (colnames t)"
    and "ScienceData_init d h = Inr sd"
  shows "container_inv sd"
proof -
  from assms(3) obtain t' where t': "table_of d = Some t'" "2 \<le> length t'"
      "''time'' \<in> set (colnames t')" "init_columns t' t' h = Inr sd"
    using init_Inr_table by blast
  with assms(1) have tt: "t' = t" by simp
  from t'(4) tt have fq: "first_non_quantity t = None" and d: "data sd = rederive_meta t t"
    by (simp_all add: init_columns_Inr)
  have m: "\<forall>(n, c) \<in> set (data sd). meta c \<noteq> None"
    unfolding d by (rule rederive_meta_has_meta)
  have "first_non_quantity (data sd) = None"
    unfolding d using fq by (simp add: first_non_quantity_rederive)
  then have q: "\<forall>(n, c) \<in> set (data sd). n \<noteq> ''time'' \<longrightarrow> is_quantity c"
    by (simp add: first_non_quantity_None)
  have l: "length (data sd) = length t" unfolding d by (simp add: rederive_meta_def)
  have c: "colnames (data sd) = colnames t" unfolding d by simp
  show ?thesis
    unfolding container_inv_def c l using assms(2) t'(2,3) tt m q by simp
qed

lemma update_forall:
  "\<forall>p \<in> set al. P p \<Longrightarrow> P (k, v) \<Longrightarrow> \<forall>p \<in> set (AList.update k v al). P p"
  by (induction al) auto

lemma length_update: "length al \<le> length (AList.update k v al)"
  by (induction al) auto

lemma setitem_inv:
  assumes "container_inv sd" and "setitem unit_true name x sd = (None, sd')"
  shows "container_inv sd'"
proof -
  from assms(2) obtain col where ub: "unit_bearing unit_true x"
    and col: "assigned_column (data sd) name x = Inr col"
    and d: "data sd' = AList.update name (col\<lparr>meta := Some []\<rparr>) (data sd)"
    by (auto simp: setitem_None)
  let ?x = "col\<lparr>meta := Some []\<rparr>"
  have "cls col = cls x" using col by (rule assigned_column_cls)
  then have q: "is_quantity ?x"
    using ub by (simp add: unit_bearing_def is_quantity_def)
  have m0: "\<forall>p \<in> set (data sd). (case p of (n, c) \<Rightarrow> meta c \<noteq> None)"
    and q0: "\<forall>p \<in> set (data sd). (case p of (n, c) \<Rightarrow> n \<noteq> ''time'' \<longrightarrow> is_quantity c)"
    using assms(1) by (simp_all add: container_inv_def)
  have m: "\<forall>p \<in> set (data sd'). (case p of (n, c) \<Rightarrow> meta c \<noteq> None)"
    unfolding d by (rule update_forall [OF m0]) simp
  have q': "\<forall>p \<in> set (data sd'). (case p of (n, c) \<Rightarrow> n \<noteq> ''time'' \<longrightarrow> is_quantity c)"
    unfolding d by (rule update_forall [OF q0]) (simp add: q)
  have di: "distinct (colnames (data sd'))"
    using assms(1) d by (simp add: container_inv_def colnames_def distinct_update)
  have ti: "''time'' \<in> set (colnames (data sd'))"
    using assms(1) d by (simp add: container_inv_def colnames_update)
  have le: "2 \<le> length (data sd')"
    using assms(1) length_update [of "data sd" name ?x]
    unfolding d by (simp add: container_inv_def)
  show ?thesis
    unfolding container_inv_def using m q' di ti le by simp
qed

lemma set_handler_inv:
  "container_inv sd \<Longrightarrow> set_handler v sd = (None, sd') \<Longrightarrow> container_inv sd'"
  by (auto simp: set_handler_def container_inv_def split: sum.splits)

lemma reachable_inv: "reachable unit_true sd \<Longrightarrow> container_inv sd"
  by (induction rule: reachable.induct) (auto intro: init_inv setitem_inv set_handler_inv)

lemma map_of_resolved:
  "map_of (map (\<lambda>(n, c). (n, resolved_unit c)) t) n = map_option resolved_unit (map_of t n)"
  by (induction t) auto

lemma map_of_in_set: "map_of t n = Some c \<Longrightarrow> (n, c) \<in> set t"
  by (rule map_of_SomeD)

lemma init_example:
  "ScienceData_init
     (TimeSeries
        [(''time'', \<lparr>cls = Time, vals = [0, 1 :: int],
                    meta = Some [(''UNITS'', PyStr ''ns'')]\<rparr>),
         (''flux'', \<lparr>cls = Quantity (Unit ''counts''), vals = [5, 6], meta = None\<rparr>)])
     HNone
   = Inr \<lparr>data =
            [(''time'', \<lparr>cls = Time, vals = [0, 1], meta = Some [(''UNITS'', PyStr ''ns'')]\<rparr>),
             (''flux'', \<lparr>cls = Quantity (Unit ''counts''), vals = [5, 6], meta = Some []\<rparr>)],
          handler = None\<rparr>"
  by (simp add: init_table_def colnames_def timeseries_copy_def init_columns_def
      is_quantity_def rederive_meta_def source_meta_def)

lemma reachable_example:
  "reachable unit_true
     \<lparr>data =
        [(''time'', \<lparr>cls = Time, vals = [0, 1 :: int],
                    meta = Some [(''UNITS'', PyStr ''ns'')]\<rparr>),
         (''flux'', \<lparr>cls = Quantity (Unit ''counts''), vals = [5, 6], meta = Some []\<rparr>)],
      handler = None\<rparr>"
proof -
  let ?t = "[(''time'', \<lparr>cls = Time, vals = [0, 1 :: int],
                        meta = Some [(''UNITS'', PyStr ''ns'')]\<rparr>),
             (''flux'', \<lparr>cls = Quantity (Unit ''counts''), vals = [5, 6], meta = None\<rparr>)]"
  have a: "table_of (TimeSeries ?t) = Some ?t" by simp
  have b: "distinct (colnames ?t)" by (simp add: colnames_def)
  show ?thesis by (rule reachable.constructed [OF a b init_example])
qed

text \<open>
  C9, amended. For every container a program can hold, \<^verbatim>\<open>units\<close> returns normally with
  one entry per column, in column order. The entry of a column is the unit of the
  quantity when the column is a quantity; None when it is a plain column, whose unit
  attribute is None; and for a column without a unit attribute the value of the metadata
  field "UNITS" when that field is present and its value is true, and None when the
  field is absent or its value is false. Every column other than "time" is a quantity
  and has its unit as entry.
\<close>

theorem C9_units:
  assumes "reachable unit_true sd"
  shows "\<exists>us. units sd = Inr us \<and> map fst us = colnames (data sd) \<and>
           (\<forall>n c. map_of (data sd) n = Some c \<longrightarrow>
              (\<forall>u. cls c = Quantity u \<longrightarrow> map_of us n = Some (AUnit u)) \<and>
              (cls c = Column \<longrightarrow> map_of us n = Some (AVal PyNone)) \<and>
              (unit_attr (cls c) = None \<longrightarrow>
                 (\<exists>m. meta c = Some m \<and>
                    (\<forall>v. map_of m ''UNITS'' = Some v \<and> truthy v \<longrightarrow>
                       map_of us n = Some (AVal v)) \<and>
                    (\<forall>v. map_of m ''UNITS'' = Some v \<and> \<not> truthy v \<longrightarrow>
                       map_of us n = Some (AVal PyNone)) \<and>
                    (map_of m ''UNITS'' = None \<longrightarrow> map_of us n = Some (AVal PyNone)))) \<and>
              (n \<noteq> ''time'' \<longrightarrow> (\<exists>u. cls c = Quantity u \<and> map_of us n = Some (AUnit u))))"
proof -
  let ?us = "map (\<lambda>(n, c). (n, resolved_unit c)) (data sd)"
  have inv: "container_inv sd" using assms by (rule reachable_inv)
  then have u: "units sd = Inr ?us" by (rule units_of_inv)
  have k: "map fst ?us = colnames (data sd)"
    by (simp add: colnames_def case_prod_beta)
  have each: "(\<forall>u. cls c = Quantity u \<longrightarrow> map_of ?us n = Some (AUnit u)) \<and>
              (cls c = Column \<longrightarrow> map_of ?us n = Some (AVal PyNone)) \<and>
              (unit_attr (cls c) = None \<longrightarrow>
                 (\<exists>m. meta c = Some m \<and>
                    (\<forall>v. map_of m ''UNITS'' = Some v \<and> truthy v \<longrightarrow>
                       map_of ?us n = Some (AVal v)) \<and>
                    (\<forall>v. map_of m ''UNITS'' = Some v \<and> \<not> truthy v \<longrightarrow>
                       map_of ?us n = Some (AVal PyNone)) \<and>
                    (map_of m ''UNITS'' = None \<longrightarrow> map_of ?us n = Some (AVal PyNone)))) \<and>
              (n \<noteq> ''time'' \<longrightarrow> (\<exists>u. cls c = Quantity u \<and> map_of ?us n = Some (AUnit u)))"
    if c: "map_of (data sd) n = Some c" for n c
  proof -
    have r: "map_of ?us n = Some (resolved_unit c)"
      using c by (simp add: map_of_resolved)
    have mem: "(n, c) \<in> set (data sd)" using c by (rule map_of_SomeD)
    then obtain m where m: "meta c = Some m"
      using inv by (auto simp: container_inv_def)
    have nt: "n \<noteq> ''time'' \<longrightarrow> (\<exists>u. cls c = Quantity u)"
    proof
      assume "n \<noteq> ''time''"
      then have "is_quantity c"
        using inv mem by (auto simp: container_inv_def)
      then show "\<exists>u. cls c = Quantity u"
        by (cases "cls c") (simp_all add: is_quantity_def)
    qed
    show ?thesis
      unfolding r using m nt by (auto simp: resolved_unit_def)
  qed
  from u k each show ?thesis by blast
qed

theorem C9_units_counterexample:
  "ScienceData_init
     (TimeSeries
        [(''time'', \<lparr>cls = Time, vals = [0, 1 :: int],
                    meta = Some [(''UNITS'', PyStr [])]\<rparr>),
         (''flux'', \<lparr>cls = Quantity (Unit ''counts''), vals = [5, 6], meta = None\<rparr>)])
     HNone
   = Inr \<lparr>data =
            [(''time'', \<lparr>cls = Time, vals = [0, 1], meta = Some [(''UNITS'', PyStr [])]\<rparr>),
             (''flux'', \<lparr>cls = Quantity (Unit ''counts''), vals = [5, 6], meta = Some []\<rparr>)],
          handler = None\<rparr> \<and>
   units
     \<lparr>data =
        [(''time'', \<lparr>cls = Time, vals = [0, 1 :: int], meta = Some [(''UNITS'', PyStr [])]\<rparr>),
         (''flux'', \<lparr>cls = Quantity (Unit ''counts''), vals = [5, 6], meta = Some []\<rparr>)],
      handler = None\<rparr>
   = Inr [(''time'', AVal PyNone), (''flux'', AUnit (Unit ''counts''))] \<and>
   column_unit_spec
     \<lparr>cls = Time, vals = [0, 1 :: int], meta = Some [(''UNITS'', PyStr [])]\<rparr>
   = AVal (PyStr []) \<and>
   AVal (PyStr []) \<noteq> AVal PyNone"
  by (simp add: init_table_def colnames_def timeseries_copy_def init_columns_def
      is_quantity_def rederive_meta_def source_meta_def units_def column_unit_def
      column_unit_spec_def)

theorem C9_units_witness:
  "\<exists>us. units
          \<lparr>data =
             [(''time'', \<lparr>cls = Time, vals = [0, 1 :: int],
                         meta = Some [(''UNITS'', PyStr ''ns'')]\<rparr>),
              (''flux'', \<lparr>cls = Quantity (Unit ''counts''), vals = [5, 6],
                         meta = Some []\<rparr>)],
           handler = None\<rparr> = Inr us \<and>
        map_of us ''flux'' = Some (AUnit (Unit ''counts'')) \<and>
        map_of us ''time'' = Some (AVal (PyStr ''ns''))"
proof -
  let ?tc = "\<lparr>cls = Time, vals = [0, 1 :: int], meta = Some [(''UNITS'', PyStr ''ns'')]\<rparr>"
  let ?fc = "\<lparr>cls = Quantity (Unit ''counts''), vals = [5, 6 :: int], meta = Some []\<rparr>"
  let ?sd = "\<lparr>data = [(''time'', ?tc), (''flux'', ?fc)], handler = None\<rparr>"
  have r: "reachable (\<lambda>u. True) ?sd" by (rule reachable_example)
  show ?thesis
    using C9_units [OF r]
    apply (elim exE conjE)
    subgoal for us
      apply (rule exI [of _ us])
      apply (frule spec [of _ "''flux''"])
      apply (drule spec [of _ "''time''"])
      apply simp
      done
    done
qed

text \<open>
  C10. Every container a program can hold has a column "time", so that \<^verbatim>\<open>time\<close> is not
  None and the row count of \<^verbatim>\<open>shape\<close> is the length of the time column; it has at least
  2 columns; and every column other than "time" is a quantity. An item assignment that
  returns normally assigned a unit-bearing quantity, keeps every column name, changes no
  other column and gives again such a container; one that raises leaves the container as
  it was.
\<close>

theorem C10_invariant:
  assumes "reachable unit_true sd"
  shows "(\<exists>t. time sd = Some t \<and> fst (shape sd) = length (vals t)) \<and>
         2 \<le> snd (shape sd) \<and> 2 \<le> len sd \<and> contains sd ''time'' \<and>
         (\<forall>(n, c) \<in> set (data sd). n \<noteq> ''time'' \<longrightarrow> is_quantity c) \<and>
         (\<forall>name x sd'. setitem unit_true name x sd = (None, sd') \<longrightarrow>
            unit_bearing unit_true x \<and>
            set (colnames (data sd)) \<subseteq> set (colnames (data sd')) \<and>
            length (data sd) \<le> length (data sd') \<and>
            (\<forall>n. n \<noteq> name \<longrightarrow> map_of (data sd') n = map_of (data sd) n) \<and>
            reachable unit_true sd') \<and>
         (\<forall>name x e sd'. setitem unit_true name x sd = (Some e, sd') \<longrightarrow> sd' = sd)"
proof -
  have inv: "container_inv sd" using assms by (rule reachable_inv)
  then have tin: "''time'' \<in> set (colnames (data sd))" and two: "2 \<le> length (data sd)"
    and q: "\<forall>(n, c) \<in> set (data sd). n \<noteq> ''time'' \<longrightarrow> is_quantity c"
    by (simp_all add: container_inv_def)
  from tin have "map_of (data sd) ''time'' \<noteq> None"
    by (simp add: map_of_eq_None_iff colnames_def)
  then obtain t where t: "map_of (data sd) ''time'' = Some t"
    by blast
  have a: "\<exists>t. time sd = Some t \<and> fst (shape sd) = length (vals t)"
    using tin t by (simp add: time_def shape_def)
  have b: "2 \<le> snd (shape sd)" "2 \<le> len sd" "contains sd ''time''"
    using tin two by (simp_all add: shape_def len_def contains_def colnames_def)
  have c: "unit_bearing unit_true x \<and>
            set (colnames (data sd)) \<subseteq> set (colnames (data sd')) \<and>
            length (data sd) \<le> length (data sd') \<and>
            (\<forall>n. n \<noteq> name \<longrightarrow> map_of (data sd') n = map_of (data sd) n) \<and>
            reachable unit_true sd'"
    if s: "setitem unit_true name x sd = (None, sd')" for name x sd'
  proof -
    from s obtain col where ub: "unit_bearing unit_true x"
      and d: "data sd' = AList.update name (col\<lparr>meta := Some []\<rparr>) (data sd)"
      by (auto simp: setitem_None)
    have "reachable unit_true sd'" using assms s by (rule reachable.assigned)
    moreover have "set (colnames (data sd)) \<subseteq> set (colnames (data sd'))"
      unfolding d by (auto simp: colnames_update)
    moreover have "length (data sd) \<le> length (data sd')"
      unfolding d by (rule length_update)
    moreover have "\<forall>n. n \<noteq> name \<longrightarrow> map_of (data sd') n = map_of (data sd) n"
      unfolding d by (simp add: update_conv')
    ultimately show ?thesis using ub by blast
  qed
  have e: "sd' = sd" if "setitem unit_true name x sd = (Some e, sd')" for name x e sd'
    using that by (rule setitem_Some)
  from a b q c e show ?thesis by blast
qed


theorem C10_invariant_witness:
  "(\<exists>t. time
          \<lparr>data =
             [(''time'', \<lparr>cls = Time, vals = [0, 1 :: int],
                         meta = Some [(''UNITS'', PyStr ''ns'')]\<rparr>),
              (''flux'', \<lparr>cls = Quantity (Unit ''counts''), vals = [5, 6],
                         meta = Some []\<rparr>)],
           handler = None\<rparr> = Some t \<and>
        fst (shape
          \<lparr>data =
             [(''time'', \<lparr>cls = Time, vals = [0, 1 :: int],
                         meta = Some [(''UNITS'', PyStr ''ns'')]\<rparr>),
              (''flux'', \<lparr>cls = Quantity (Unit ''counts''), vals = [5, 6],
                         meta = Some []\<rparr>)],
           handler = None\<rparr>) = length (vals t)) \<and>
   2 \<le> snd (shape
          \<lparr>data =
             [(''time'', \<lparr>cls = Time, vals = [0, 1 :: int],
                         meta = Some [(''UNITS'', PyStr ''ns'')]\<rparr>),
              (''flux'', \<lparr>cls = Quantity (Unit ''counts''), vals = [5, 6],
                         meta = Some []\<rparr>)],
           handler = None\<rparr>)"
proof -
  let ?tc = "\<lparr>cls = Time, vals = [0, 1 :: int], meta = Some [(''UNITS'', PyStr ''ns'')]\<rparr>"
  let ?fc = "\<lparr>cls = Quantity (Unit ''counts''), vals = [5, 6 :: int], meta = Some []\<rparr>"
  let ?sd = "\<lparr>data = [(''time'', ?tc), (''flux'', ?fc)], handler = None\<rparr>"
  have r: "reachable (\<lambda>u. True) ?sd" by (rule reachable_example)
  show ?thesis
    using C10_invariant [OF r] by (elim conjE) (intro conjI; assumption)
qed

section \<open>Copy isolation\<close>

lemma table_at_cong:
  "tabs s' ! a = tabs s ! a \<Longrightarrow> \<forall>(n, r) \<in> set (tabs s ! a). objs s' ! r = objs s ! r \<Longrightarrow>
     table_at s' a = table_at s a"
  by (auto simp: table_at_def)

lemma set_metas_tabs [simp]: "tabs (set_metas a cs s) = tabs s"
  by (induction cs arbitrary: s) auto

lemma set_metas_length [simp]: "length (objs (set_metas a cs s)) = length (objs s)"
  by (induction cs arbitrary: s) auto

lemma set_metas_other:
  "r \<notin> snd ` set cs \<Longrightarrow> objs (set_metas a cs s) ! r = objs s ! r"
  by (induction cs arbitrary: s) auto

lemma set_metas_at:
  assumes "distinct (map snd cs)"
    and "\<forall>(n, r) \<in> set cs. r < length (objs s)"
    and "\<forall>(n, r) \<in> set cs. r \<notin> snd ` set (tabs s ! a)"
    and "(n, r) \<in> set cs"
  shows "objs (set_metas a cs s) ! r
           = (objs s ! r)\<lparr>meta := Some (dict_update [] (source_meta (table_at s a) n))\<rparr>"
  using assms
proof (induction cs arbitrary: s)
  case Nil
  then show ?case by simp
next
  case (Cons p cs)
  obtain n0 r0 where p: "p = (n0, r0)" by (cases p)
  let ?o = "(objs s ! r0)\<lparr>meta := Some (dict_update [] (source_meta (table_at s a) n0))\<rparr>"
  let ?s1 = "s\<lparr>objs := (objs s)[r0 := ?o]\<rparr>"
  have r0: "r0 \<notin> snd ` set cs" "r0 < length (objs s)" "r0 \<notin> snd ` set (tabs s ! a)"
    using Cons.prems p by auto
  have ta: "table_at ?s1 a = table_at s a"
  proof (rule table_at_cong)
    show "tabs ?s1 ! a = tabs s ! a" by simp
    show "\<forall>(n, r) \<in> set (tabs s ! a). objs ?s1 ! r = objs s ! r"
      using r0(3) by (auto simp: nth_list_update image_iff)
  qed
  show ?case
  proof (cases "(n, r) = (n0, r0)")
    case True
    then have "objs (set_metas a cs ?s1) ! r = objs ?s1 ! r0"
      using r0(1) by (simp add: set_metas_other)
    then show ?thesis using True p r0(2) by simp
  next
    case False
    then have mem: "(n, r) \<in> set cs" using Cons.prems(4) p by auto
    then have ne: "r \<noteq> r0" using r0(1) by (auto simp: image_iff)
    have "objs (set_metas a cs ?s1) ! r
            = (objs ?s1 ! r)\<lparr>meta := Some (dict_update [] (source_meta (table_at ?s1 a) n))\<rparr>"
    proof (rule Cons.IH)
      show "distinct (map snd cs)" using Cons.prems(1) by simp
      show "\<forall>(n, r) \<in> set cs. r < length (objs ?s1)" using Cons.prems(2) by simp
      show "\<forall>(n, r) \<in> set cs. r \<notin> snd ` set (tabs ?s1 ! a)" using Cons.prems(3) by simp
      show "(n, r) \<in> set cs" by (rule mem)
    qed
    then show ?thesis using ne p ta by simp
  qed
qed


lemma copy_store_props:
  assumes "wf_ref s a" and "timeseries_copy_store a s = (a', s1)"
  shows "a' = length (tabs s)"
    and "tabs s1 = tabs s @ [zip (map fst (tabs s ! a))
                               [length (objs s) ..< length (objs s) + length (tabs s ! a)]]"
    and "objs s1 = objs s @ map (\<lambda>(n, r). objs s ! r) (tabs s ! a)"
    and "tabs s1 ! a = tabs s ! a"
    and "table_at s1 a = table_at s a"
    and "table_at s1 a' = table_at s a"
proof -
  let ?cols = "tabs s ! a"
  let ?b = "length (objs s)"
  show a': "a' = length (tabs s)"
    using assms(2) by (auto simp: timeseries_copy_store_def Let_def)
  show t: "tabs s1 = tabs s @ [zip (map fst ?cols) [?b ..< ?b + length ?cols]]"
    using assms(2) by (auto simp: timeseries_copy_store_def Let_def)
  show o: "objs s1 = objs s @ map (\<lambda>(n, r). objs s ! r) ?cols"
    using assms(2) by (auto simp: timeseries_copy_store_def Let_def)
  have alt: "a < length (tabs s)" using assms(1) by (simp add: wf_ref_def)
  show ta: "tabs s1 ! a = tabs s ! a"
    using alt by (simp add: t nth_append)
  have old: "\<forall>(n, r) \<in> set ?cols. objs s1 ! r = objs s ! r"
    using assms(1) by (auto simp: wf_ref_def o nth_append)
  show "table_at s1 a = table_at s a"
    using ta old by (rule table_at_cong)
  have ta': "tabs s1 ! a' = zip (map fst ?cols) [?b ..< ?b + length ?cols]"
    by (simp add: a' t)
  show "table_at s1 a' = table_at s a"
  proof (rule nth_equalityI)
    show "length (table_at s1 a') = length (table_at s a)"
      by (simp add: table_at_def ta')
  next
    fix i assume "i < length (table_at s1 a')"
    then have i: "i < length ?cols" by (simp add: table_at_def ta')
    obtain n r where nr: "?cols ! i = (n, r)" by (cases "?cols ! i")
    have "objs s1 ! (?b + i) = objs s ! r"
      using i nr by (simp add: o nth_append)
    then show "table_at s1 a' ! i = table_at s a ! i"
      using i nr by (simp add: table_at_def ta')
  qed
qed


lemma init_table_store_Inr:
  assumes wf: "wf_ref s a" and init: "init_table_store a h s = (Inr sd, s')"
  shows "data_ref sd = length (tabs s)"
    and "handler_setter h = Inr (handler_ref sd)"
    and "2 \<le> length (tabs s ! a)" and "''time'' \<in> set (map fst (tabs s ! a))"
    and "first_non_quantity (table_at s a) = None"
    and "table_at s' (data_ref sd) = rederive_meta (table_at s a) (table_at s a)"
    and "separate s' a (data_ref sd)"
proof -
  let ?cols = "tabs s ! a"
  let ?b = "length (objs s)"
  let ?cs = "zip (map fst ?cols) [?b ..< ?b + length ?cols]"
  obtain a' s1 where cp: "timeseries_copy_store a s = (a', s1)"
    by (cases "timeseries_copy_store a s")
  note c = copy_store_props [OF wf cp]
  have cs: "tabs s1 ! a' = ?cs" by (simp add: c(1) c(2))
  from init cp show two: "2 \<le> length ?cols" and tm: "''time'' \<in> set (map fst ?cols)"
    by (auto simp: init_table_store_def init_columns_store_def split: if_splits)
  from init cp two tm have fq1: "first_non_quantity (table_at s1 a') = None"
    by (auto simp: init_table_store_def init_columns_store_def split: option.splits sum.splits)
  then show fq: "first_non_quantity (table_at s a) = None" by (simp add: c(6))
  let ?s2 = "set_metas a ?cs s1"
  from init cp two tm fq1 cs have res: "handler_setter h = Inr (handler_ref sd)"
      "data_ref sd = a'" "s' = ?s2"
    by (auto simp: init_table_store_def init_columns_store_def Let_def split: option.splits sum.splits)
  show "data_ref sd = length (tabs s)" using res(2) c(1) by simp
  show "handler_setter h = Inr (handler_ref sd)" by (rule res(1))
  have src: "\<forall>(n, r) \<in> set ?cols. r < ?b"
    using wf by (simp add: wf_ref_def)
  have new: "\<forall>(n, r) \<in> set ?cs. ?b \<le> r \<and> r < length (objs s1)"
    by (auto simp: c(3) dest: set_zip_rightD)
  have dis: "distinct (map snd ?cs)" by simp
  have apart: "\<forall>(n, r) \<in> set ?cs. r \<notin> snd ` set (tabs s1 ! a)"
    using src new by (fastforce simp: c(4))
  have at: "objs ?s2 ! r
              = (objs s1 ! r)\<lparr>meta := Some (dict_update [] (source_meta (table_at s a) n))\<rparr>"
    if "(n, r) \<in> set ?cs" for n r
    using set_metas_at [OF dis _ apart that] new c(5) by auto
  have "table_at ?s2 a' = map (\<lambda>(n, r). (n, objs ?s2 ! r)) ?cs"
    by (simp add: table_at_def cs)
  also have "\<dots> = map (\<lambda>(n, r). (n, (objs s1 ! r)
                \<lparr>meta := Some (dict_update [] (source_meta (table_at s a) n))\<rparr>)) ?cs"
    by (rule map_cong) (auto simp: at)
  also have "\<dots> = rederive_meta (table_at s a) (table_at s1 a')"
    by (simp add: rederive_meta_def table_at_def cs case_prod_beta)
  finally show "table_at s' (data_ref sd) = rederive_meta (table_at s a) (table_at s a)"
    by (simp add: res(2,3) c(6))
  have alt: "a < length (tabs s)" using wf by (simp add: wf_ref_def)
  have "snd ` set (tabs s1 ! a) \<inter> snd ` set ?cs = {}"
    using apart by (fastforce simp: image_iff)
  moreover have "\<forall>(n, r) \<in> set ?cs. r < length (objs s1)"
    using new by auto
  ultimately show "separate s' a (data_ref sd)"
    using alt by (simp add: separate_def res(2,3) c(1) c(2) nth_append cs [unfolded c(1) c(2)])
qed

lemma map_of_ref: "map_of t n = Some r \<Longrightarrow> r \<in> snd ` set t"
  by (force dest: map_of_SomeD)

lemma set_delete_subset: "set (AList.delete k al) \<subseteq> set al"
  by (induction al) auto

lemma set_update_subset: "set (AList.update k v al) \<subseteq> insert (k, v) (set al)"
  by (induction al) auto

lemma disjoint_insert: "A \<subseteq> insert x B \<Longrightarrow> x \<notin> C \<Longrightarrow> B \<inter> C = {} \<Longrightarrow> A \<inter> C = {}"
  by blast

lemma disjoint_subset: "A \<subseteq> B \<Longrightarrow> B \<inter> C = {} \<Longrightarrow> A \<inter> C = {}"
  by blast

lemma write_frame:
  assumes "separate s a a'" and "r \<in> snd ` set (tabs s ! a)"
  shows "separate (s\<lparr>objs := (objs s)[r := x]\<rparr>) a a'"
    and "table_at (s\<lparr>objs := (objs s)[r := x]\<rparr>) a' = table_at s a'"
proof -
  let ?s = "s\<lparr>objs := (objs s)[r := x]\<rparr>"
  show "separate ?s a a'" using assms(1) by (simp add: separate_def)
  have "r \<notin> snd ` set (tabs s ! a')" using assms by (auto simp: separate_def)
  then have "\<forall>(n, q) \<in> set (tabs s ! a'). objs ?s ! q = objs s ! q"
    by (auto simp: nth_list_update image_iff)
  then show "table_at ?s a' = table_at s a'"
    by (intro table_at_cong) simp_all
qed

lemma mutate_frame:
  assumes "separate s a a'"
  shows "separate (mutate a m s) a a' \<and> table_at (mutate a m s) a' = table_at s a'"
proof (cases m)
  case (SetElement col i v)
  show ?thesis
  proof (cases "map_of (tabs s ! a) col")
    case None
    then show ?thesis using assms SetElement by simp
  next
    case (Some r)
    then have "r \<in> snd ` set (tabs s ! a)" by (rule map_of_ref)
    from write_frame [OF assms this] show ?thesis using SetElement Some by simp
  qed
next
  case (SetMetaKey col k v)
  show ?thesis
  proof (cases "map_of (tabs s ! a) col")
    case None
    then show ?thesis using assms SetMetaKey by simp
  next
    case (Some r)
    then have r: "r \<in> snd ` set (tabs s ! a)" by (rule map_of_ref)
    show ?thesis
    proof (cases "meta (objs s ! r)")
      case None
      then show ?thesis using assms SetMetaKey Some by simp
    next
      case (Some mt)
      from write_frame [OF assms r] show ?thesis
        using SetMetaKey \<open>map_of (tabs s ! a) col = Some r\<close> Some by simp
    qed
  qed
next
  case (SetColumn col x)
  let ?s = "mutate a m s"
  have ne: "a \<noteq> a'" and la: "a < length (tabs s)" and la': "a' < length (tabs s)"
    and b: "\<forall>(n, r) \<in> set (tabs s ! a'). r < length (objs s)"
    and d: "snd ` set (tabs s ! a) \<inter> snd ` set (tabs s ! a') = {}"
    using assms by (simp_all add: separate_def)
  have t': "tabs ?s ! a' = tabs s ! a'" using ne SetColumn by simp
  have ta: "tabs ?s ! a = AList.update col (length (objs s)) (tabs s ! a)"
    using la SetColumn by simp
  have o: "objs ?s = objs s @ [x]" using SetColumn by simp
  have same: "\<forall>(n, r) \<in> set (tabs s ! a'). objs ?s ! r = objs s ! r"
    using b by (auto simp: o nth_append)
  have tab: "table_at ?s a' = table_at s a'"
    using t' same by (rule table_at_cong)
  have sub: "snd ` set (tabs ?s ! a) \<subseteq> insert (length (objs s)) (snd ` set (tabs s ! a))"
    unfolding ta using set_update_subset [of col "length (objs s)" "tabs s ! a"] by force
  have fresh: "length (objs s) \<notin> snd ` set (tabs s ! a')"
    using b by (auto simp: image_iff)
  have d': "snd ` set (tabs ?s ! a) \<inter> snd ` set (tabs ?s ! a') = {}"
    unfolding t' by (rule disjoint_insert [OF sub fresh d])
  have b': "\<forall>(n, r) \<in> set (tabs ?s ! a'). r < length (objs ?s)"
    unfolding t' o using b by auto
  have "length (tabs ?s) = length (tabs s)" using SetColumn by simp
  then have "separate ?s a a'"
    unfolding separate_def using ne la la' b' d' by simp
  with tab show ?thesis by simp
next
  case (RemoveColumn col)
  let ?s = "mutate a m s"
  have ne: "a \<noteq> a'" and la: "a < length (tabs s)" and la': "a' < length (tabs s)"
    and b: "\<forall>(n, r) \<in> set (tabs s ! a'). r < length (objs s)"
    and d: "snd ` set (tabs s ! a) \<inter> snd ` set (tabs s ! a') = {}"
    using assms by (simp_all add: separate_def)
  have t': "tabs ?s ! a' = tabs s ! a'" using ne RemoveColumn by simp
  have ta: "tabs ?s ! a = AList.delete col (tabs s ! a)"
    using la RemoveColumn by simp
  have o: "objs ?s = objs s" using RemoveColumn by simp
  have tab: "table_at ?s a' = table_at s a'"
    by (simp add: table_at_def t' o)
  have sub: "snd ` set (tabs ?s ! a) \<subseteq> snd ` set (tabs s ! a)"
    unfolding ta using set_delete_subset [of col "tabs s ! a"] by force
  have d': "snd ` set (tabs ?s ! a) \<inter> snd ` set (tabs ?s ! a') = {}"
    unfolding t' by (rule disjoint_subset [OF sub d])
  have "length (tabs ?s) = length (tabs s)" using RemoveColumn by simp
  then have "separate ?s a a'"
    unfolding separate_def t' o using ne la la' b d' [unfolded t'] by simp
  with tab show ?thesis by simp
qed

lemma mutations_frame:
  "separate s a a' \<Longrightarrow>
     separate (fold (mutate a) ms s) a a' \<and> table_at (fold (mutate a) ms s) a' = table_at s a'"
proof (induction ms arbitrary: s)
  case Nil
  then show ?case by simp
next
  case (Cons m ms)
  from mutate_frame [OF Cons.prems, of m]
  have 1: "separate (mutate a m s) a a'" and 2: "table_at (mutate a m s) a' = table_at s a'"
    by simp_all
  from Cons.IH [OF 1] 2 show ?case by simp
qed

lemma colnames_table_at: "colnames (table_at s a) = map fst (tabs s ! a)"
  by (simp add: colnames_def table_at_def case_prod_beta)

lemma length_table_at: "length (table_at s a) = length (tabs s ! a)"
  by (simp add: table_at_def)

lemma init_table_store_Inl:
  assumes wf: "wf_ref s a" and init: "init_table_store a h s = (Inl e, s')"
  shows "init_table (table_at s a) h = Inl e"
proof -
  obtain a' s1 where cp: "timeseries_copy_store a s = (a', s1)"
    by (cases "timeseries_copy_store a s")
  have t: "table_at s1 a' = table_at s a"
    by (rule copy_store_props(6) [OF wf cp])
  show ?thesis
    using init cp t
    by (auto simp: init_table_store_def init_columns_store_def init_table_def init_columns_def timeseries_copy_def
        colnames_table_at length_table_at Let_def
        split: if_splits option.splits sum.splits)
qed

lemma init_table_store_refines:
  assumes wf: "wf_ref s a" and init: "init_table_store a h s = (Inr sd, s')"
  shows "init_table (table_at s a) h = Inr (container_at s' sd)"
proof -
  note f = init_table_store_Inr [OF wf init]
  have "init_table (table_at s a) h = init_columns (table_at s a) (table_at s a) h"
    using f(3,4) by (simp add: init_table_valid colnames_table_at length_table_at)
  also have "\<dots> = Inr \<lparr>data = rederive_meta (table_at s a) (table_at s a),
                        handler = handler_ref sd\<rparr>"
    using f(2,5) by (simp add: init_columns_def)
  also have "\<dots> = Inr (container_at s' sd)"
    by (simp add: container_at_def f(6))
  finally show ?thesis .
qed

lemma init_store_Inr_timeseries:
  "ScienceData_init_store r h s = (Inr sd, s') \<Longrightarrow> ref_addr r = Some a \<Longrightarrow>
     r = TimeSeriesRef a \<and> init_table_store a h s = (Inr sd, s')"
  by (cases r)
     (auto simp: init_from_table_store_def timeseries_from_table_store_def split: if_splits)

text \<open>On a store, too, the table that is not a time series is refused at line 88.\<close>

lemma init_from_table_store_raises:
  "2 \<le> length (tabs s ! a) \<Longrightarrow> ''time'' \<in> set (map fst (tabs s ! a)) \<Longrightarrow>
     ScienceData_init_store (TableRef a) h s = (Inl (Library TypeErrorClass), s)"
  by (simp add: init_from_table_store_def timeseries_from_table_store_def)

text \<open>
  C5. Copy isolation: when the constructor has built a container from the table at a
  valid reference, no sequence of element assignments, metadata assignments, column
  assignments and column removals that the caller makes through that reference changes
  the contents of the container. The contents are those that the constructor gives on
  table values.
\<close>

theorem C5_copy_isolation:
  assumes "ref_addr r = Some a" and "wf_ref s a"
    and "ScienceData_init_store r h s = (Inr sd, s')"
  shows "container_at (fold (mutate a) ms s') sd = container_at s' sd \<and>
         ScienceData_init (pydata_at s r) h = Inr (container_at s' sd)"
proof -
  from init_store_Inr_timeseries [OF assms(3,1)]
  have r: "r = TimeSeriesRef a" and init: "init_table_store a h s = (Inr sd, s')"
    by simp_all
  have "separate s' a (data_ref sd)"
    by (rule init_table_store_Inr(7) [OF assms(2) init])
  then have "table_at (fold (mutate a) ms s') (data_ref sd) = table_at s' (data_ref sd)"
    using mutations_frame by blast
  then have 1: "container_at (fold (mutate a) ms s') sd = container_at s' sd"
    by (simp add: container_at_def)
  have 2: "ScienceData_init (pydata_at s r) h = Inr (container_at s' sd)"
    using init_table_store_refines [OF assms(2) init] r by simp
  from 1 2 show ?thesis by simp
qed

lemma store_example:
  "ScienceData_init_store (TimeSeriesRef 0) HNone
     \<lparr>objs = [\<lparr>cls = Time, vals = [0, 1 :: int], meta = None\<rparr>,
              \<lparr>cls = Quantity (Unit ''counts''), vals = [5, 6], meta = None\<rparr>],
      tabs = [[(''time'', 0), (''flux'', 1)]]\<rparr>
   = (Inr \<lparr>data_ref = 1, handler_ref = None\<rparr>,
      \<lparr>objs = [\<lparr>cls = Time, vals = [0, 1], meta = None\<rparr>,
               \<lparr>cls = Quantity (Unit ''counts''), vals = [5, 6], meta = None\<rparr>,
               \<lparr>cls = Time, vals = [0, 1], meta = Some []\<rparr>,
               \<lparr>cls = Quantity (Unit ''counts''), vals = [5, 6], meta = Some []\<rparr>],
       tabs = [[(''time'', 0), (''flux'', 1)], [(''time'', 2), (''flux'', 3)]]\<rparr>)"
  by (simp add: init_table_store_def init_columns_store_def timeseries_copy_store_def table_at_def
      is_quantity_def source_meta_def upt_rec [of 2] upt_rec [of 3])


theorem C5_copy_isolation_witness:
  "container_at
     (fold (mutate 0)
        [SetElement ''flux'' 0 99, SetColumn ''energy'' \<lparr>cls = Array, vals = [7], meta = None\<rparr>,
         RemoveColumn ''time'']
        \<lparr>objs = [\<lparr>cls = Time, vals = [0, 1 :: int], meta = None\<rparr>,
                 \<lparr>cls = Quantity (Unit ''counts''), vals = [5, 6], meta = None\<rparr>,
                 \<lparr>cls = Time, vals = [0, 1], meta = Some []\<rparr>,
                 \<lparr>cls = Quantity (Unit ''counts''), vals = [5, 6], meta = Some []\<rparr>],
         tabs = [[(''time'', 0), (''flux'', 1)], [(''time'', 2), (''flux'', 3)]]\<rparr>)
     \<lparr>data_ref = 1, handler_ref = None\<rparr>
   = \<lparr>data = [(''time'', \<lparr>cls = Time, vals = [0, 1], meta = Some []\<rparr>),
              (''flux'', \<lparr>cls = Quantity (Unit ''counts''), vals = [5, 6], meta = Some []\<rparr>)],
      handler = None\<rparr> \<and>
   table_at
     (fold (mutate 0)
        [SetElement ''flux'' 0 99, SetColumn ''energy'' \<lparr>cls = Array, vals = [7], meta = None\<rparr>,
         RemoveColumn ''time'']
        \<lparr>objs = [\<lparr>cls = Time, vals = [0, 1 :: int], meta = None\<rparr>,
                 \<lparr>cls = Quantity (Unit ''counts''), vals = [5, 6], meta = None\<rparr>,
                 \<lparr>cls = Time, vals = [0, 1], meta = Some []\<rparr>,
                 \<lparr>cls = Quantity (Unit ''counts''), vals = [5, 6], meta = Some []\<rparr>],
         tabs = [[(''time'', 0), (''flux'', 1)], [(''time'', 2), (''flux'', 3)]]\<rparr>)
     0
   = [(''flux'', \<lparr>cls = Quantity (Unit ''counts''), vals = [99, 6], meta = None\<rparr>),
      (''energy'', \<lparr>cls = Array, vals = [7], meta = None\<rparr>)]"
proof -
  let ?s0 = "\<lparr>objs = [\<lparr>cls = Time, vals = [0, 1 :: int], meta = None\<rparr>,
                      \<lparr>cls = Quantity (Unit ''counts''), vals = [5, 6], meta = None\<rparr>],
              tabs = [[(''time'', 0), (''flux'', 1)]]\<rparr>"
  let ?s1 = "\<lparr>objs = [\<lparr>cls = Time, vals = [0, 1 :: int], meta = None\<rparr>,
                      \<lparr>cls = Quantity (Unit ''counts''), vals = [5, 6], meta = None\<rparr>,
                      \<lparr>cls = Time, vals = [0, 1], meta = Some []\<rparr>,
                      \<lparr>cls = Quantity (Unit ''counts''), vals = [5, 6], meta = Some []\<rparr>],
              tabs = [[(''time'', 0), (''flux'', 1)], [(''time'', 2), (''flux'', 3)]]\<rparr>"
  let ?ms = "[SetElement ''flux'' 0 (99 :: int),
              SetColumn ''energy'' \<lparr>cls = Array, vals = [7], meta = None\<rparr>,
              RemoveColumn ''time'']"
  let ?sd = "\<lparr>data_ref = 1, handler_ref = None\<rparr>"
  have a: "ref_addr (TimeSeriesRef 0) = Some 0" by simp
  have wf: "wf_ref ?s0 0" by (simp add: wf_ref_def)
  have "container_at (fold (mutate 0) ?ms ?s1) ?sd = container_at ?s1 ?sd"
    using C5_copy_isolation [OF a wf store_example, of ?ms] by blast
  moreover have "container_at ?s1 ?sd
      = \<lparr>data = [(''time'', \<lparr>cls = Time, vals = [0, 1], meta = Some []\<rparr>),
                 (''flux'', \<lparr>cls = Quantity (Unit ''counts''), vals = [5, 6],
                            meta = Some []\<rparr>)],
         handler = None\<rparr>"
    by (simp add: container_at_def table_at_def)
  ultimately have 1: "container_at (fold (mutate 0) ?ms ?s1) ?sd
      = \<lparr>data = [(''time'', \<lparr>cls = Time, vals = [0, 1], meta = Some []\<rparr>),
                 (''flux'', \<lparr>cls = Quantity (Unit ''counts''), vals = [5, 6],
                            meta = Some []\<rparr>)],
         handler = None\<rparr>"
    by (rule trans)
  have 2: "table_at (fold (mutate 0) ?ms ?s1) 0
      = [(''flux'', \<lparr>cls = Quantity (Unit ''counts''), vals = [99, 6], meta = None\<rparr>),
         (''energy'', \<lparr>cls = Array, vals = [7], meta = None\<rparr>)]"
    by (simp add: table_at_def)
  from 1 2 show ?thesis by (rule conjI)
qed

end
